theory Spec2Isabelle
  imports Complex_Main "HOL-Library.AList"
begin

section \<open>Python values\<close>

text \<open>
  The exceptions that the statements of \<^verbatim>\<open>session.py\<close> can raise. \<open>RequestException\<close>
  stands for every exception of the \<^verbatim>\<open>requests\<close> library (connection refused, timeout, ...);
  \<open>ValueError\<close> includes \<^verbatim>\<open>json.JSONDecodeError\<close>, its subclass; \<open>UserWarning\<close> is what
  \<^verbatim>\<open>warnings.warn\<close> raises when the filter turns warnings into errors.
\<close>

datatype py_error =
  ZeroDivisionError | TypeError | IndexError | KeyError | ValueError | RequestException
  | UserWarning

text \<open>What \<^verbatim>\<open>json.loads\<close> returns: \<open>JNull\<close> is Python's \<^verbatim>\<open>None\<close>.\<close>

datatype json =
  JNull | JBool bool | JInt int | JFloat real | JStr string
  | JArr "json list" | JObj "(string \<times> json) list"

text \<open>Truth value of a Python object, as \<^verbatim>\<open>if x:\<close> tests it.\<close>

fun json_truthy :: "json \<Rightarrow> bool" where
  "json_truthy JNull = False"
| "json_truthy (JBool b) = b"
| "json_truthy (JInt i) = (i \<noteq> 0)"
| "json_truthy (JFloat x) = (x \<noteq> 0)"
| "json_truthy (JStr s) = (s \<noteq> [])"
| "json_truthy (JArr xs) = (xs \<noteq> [])"
| "json_truthy (JObj kvs) = (kvs \<noteq> [])"

text \<open>\<^verbatim>\<open>x[k]\<close> with a string key: only a dict accepts it.\<close>

fun getitem_key :: "json \<Rightarrow> string \<Rightarrow> py_error + json" where
  "getitem_key (JObj kvs) k = (case map_of kvs k of None \<Rightarrow> Inl KeyError | Some v \<Rightarrow> Inr v)"
| "getitem_key j k = Inl TypeError"

text \<open>\<^verbatim>\<open>x[i]\<close> with a non-negative integer index.\<close>

fun getitem_idx :: "json \<Rightarrow> nat \<Rightarrow> py_error + json" where
  "getitem_idx (JArr xs) i = (if i < length xs then Inr (xs ! i) else Inl IndexError)"
| "getitem_idx (JStr s) i = (if i < length s then Inr (JStr [s ! i]) else Inl IndexError)"
| "getitem_idx (JObj kvs) i = Inl KeyError"
| "getitem_idx j i = Inl TypeError"

text \<open>A loaded JSON value as an optional Python object: \<^verbatim>\<open>null\<close> is \<^verbatim>\<open>None\<close>.\<close>

definition opt_of_json :: "json \<Rightarrow> json option" where
  "opt_of_json j = (if j = JNull then None else Some j)"

text \<open>\<^verbatim>\<open>xs[i]\<close> on a Python list or tuple.\<close>

definition index :: "'a list \<Rightarrow> nat \<Rightarrow> py_error + 'a" where
  "index xs i = (if i < length xs then Inr (xs ! i) else Inl IndexError)"

text \<open>Truth value of \<^verbatim>\<open>self.__remote\<close>: \<^verbatim>\<open>None\<close> and the empty string are false.\<close>

definition truthy :: "string option \<Rightarrow> bool" where
  "truthy r = (case r of None \<Rightarrow> False | Some u \<Rightarrow> u \<noteq> [])"

section \<open>Data of the session coordinator\<close>

text \<open>
  \<^verbatim>\<open>ExecutionContext\<close> (module \<^verbatim>\<open>sys_utils\<close>) enters \<^verbatim>\<open>session.py\<close> through two methods
  only; an object of the class is the pair of their results.
\<close>

record execution_context =
  compute_hash :: string
  to_dict :: json

text \<open>
  One metric, as the arguments of \<^verbatim>\<open>insert_metric\<close> (environment key: the local
  \<^verbatim>\<open>ENV_H\<close>) and as the payload of \<^verbatim>\<open>POST /metrics/\<close> (environment key: the remote
  \<^verbatim>\<open>context_h\<close>).
\<close>

record 'e metric =
  m_session_h :: string
  m_env :: 'e
  m_item_start_time :: string
  m_item :: string
  m_item_path :: string
  m_item_variant :: string
  m_item_loc :: string
  m_kind :: string
  m_component :: string
  m_total_time :: real
  m_user_time :: real
  m_kernel_time :: real
  m_cpu_usage :: real
  m_mem_usage :: real

record session_row =
  s_session_h :: string
  s_run_date :: string
  s_scm_ref :: string
  s_description :: "(string \<times> string) list"

record sysmem =
  y_session_h :: string
  y_test_order :: int
  y_item_path :: string
  y_item :: string
  y_total_memory_mb :: real
  y_available_memory_mb :: real
  y_used_memory_mb :: real
  y_memory_percent :: real
  y_process_rss_mb :: real
  y_process_vms_mb :: real
  y_cached_mb :: "real option"
  y_buffers_mb :: "real option"
  y_swap_used_mb :: real
  y_recorded_at :: string

datatype payload =
  Session_payload session_row
  | Context_payload json
  | Metric_payload "json metric"
  | Sysmem_payload sysmem

datatype request = GET string | POST string payload

text \<open>
  What a call of \<^verbatim>\<open>requests.get\<close> or \<^verbatim>\<open>requests.post\<close> does: it returns a response
  (\<^verbatim>\<open>status_code\<close>, \<^verbatim>\<open>text\<close>) or raises.
\<close>

datatype http_reply = Response nat string | Transport_error

datatype warning =
  Cannot_insert_session nat
  | Cannot_insert_context nat
  | Cannot_insert_values nat

text \<open>The lines \<^verbatim>\<open>_log\<close> prints, one constructor for each call of it.\<close>

datatype log_line =
  Log_GET string
  | Log_GET_response nat
  | Log_GET_response_body json
  | Log_POST string
  | Log_POST_payload payload
  | Log_POST_response nat string
  | Log_env_ids "string option" "json option"
  | Log_got_remote_context_id "json option"
  | Log_final_env_ids "string option" "json option"
  | Log_metric_skipped_scope string "string list" string
  | Log_POST_metric string string real
  | Log_metric_failed nat string
  | Log_metric_ok string
  | Log_metric_skipped_no_env string
  | Log_sysmem_failed nat string
  | Log_sysmem_error py_error

text \<open>The fields of \<^verbatim>\<open>PyTestMonitorSession\<close>. \<open>db\<close> is the handler, present or not.\<close>

record PyTestMonitorSession =
  db :: "string option"
  monitor_enabled :: bool
  remote :: "string option"
  component :: string
  session_h :: string
  scope :: "string list"
  eid :: "string option \<times> json option"
  mem_usage_base :: "real option"
  test_order :: int

text \<open>
  Everything outside the object that its methods read or write: the three tables of the
  local store, the requests sent to the remote server so far, the warnings issued through
  \<^verbatim>\<open>warnings.warn\<close> (the calls of it that returned) and the lines printed.
\<close>

record world =
  contexts :: "execution_context list"
  sessions :: "session_row list"
  metrics :: "string metric list"
  sent :: "request list"
  warnings :: "warning list"
  stdout :: "log_line list"

text \<open>What \<^verbatim>\<open>memory_profiler.memory_usage\<close> returns: a list or a number.\<close>

datatype memuse = Mem_list "real list" | Mem_float real

record svmem =
  vm_total :: real
  vm_available :: real
  vm_used :: real
  vm_percent :: real
  vm_cached :: "real option"
  vm_buffers :: "real option"

text \<open>
  The libraries and collaborators the methods call, as parameters: the remote server
  (its reply to a request, given the requests before it), \<^verbatim>\<open>json.loads\<close>, the MD5 hex
  digest of \<^verbatim>\<open>hashlib\<close>, the clock, \<^verbatim>\<open>determine_scm_revision\<close>, \<^verbatim>\<open>collect_ci_info\<close>,
  \<^verbatim>\<open>ExecutionContext()\<close>, \<^verbatim>\<open>memory_profiler\<close>, \<^verbatim>\<open>datetime.fromtimestamp(t).isoformat()\<close>,
  \<^verbatim>\<open>template.format(user_component=c)\<close>, the readings of \<^verbatim>\<open>psutil\<close>, and the filter of
  the \<^verbatim>\<open>warnings\<close> module (\<^verbatim>\<open>-W error\<close>, \<^verbatim>\<open>simplefilter("error")\<close>: a warning is raised as
  an exception).
  Numbers are exact reals: the rounding of Python's floats is not modelled.
\<close>

record platform =
  server :: "request list \<Rightarrow> request \<Rightarrow> http_reply"
  json_loads :: "string \<Rightarrow> py_error + json"
  md5_hex :: "string \<Rightarrow> string"
  now_iso :: string
  scm_revision :: string
  ci_info :: "(string \<times> string) list"
  new_execution_context :: execution_context
  memory_usage :: memuse
  fromtimestamp_iso :: "real \<Rightarrow> py_error + string"
  str_format :: "string \<Rightarrow> string \<Rightarrow> py_error + string"
  virtual_memory :: svmem
  swap_used :: real
  proc_rss :: real
  proc_vms :: real
  warnings_as_errors :: bool

definition log_stdout :: "log_line \<Rightarrow> world \<Rightarrow> world" where
  "log_stdout l w = w\<lparr>stdout := stdout w @ [l]\<rparr>"

text \<open>
  \<^verbatim>\<open>warnings.warn(msg)\<close>: under an error filter it raises, otherwise the warning is issued
  and the call returns.
\<close>

definition warn :: "platform \<Rightarrow> warning \<Rightarrow> world \<Rightarrow> (py_error + unit) \<times> world" where
  "warn P m w =
     (if warnings_as_errors P then (Inl UserWarning, w)
      else (Inr (), w\<lparr>warnings := warnings w @ [m]\<rparr>))"

text \<open>A request: it is sent, and the server's reply comes back.\<close>

definition http :: "platform \<Rightarrow> request \<Rightarrow> world \<Rightarrow> http_reply \<times> world" where
  "http P req w = (server P (sent w) req, w\<lparr>sent := sent w @ [req]\<rparr>)"

text \<open>\<^verbatim>\<open>r.text[:n] if r.text else 'empty'\<close>\<close>

definition text_or_empty :: "nat \<Rightarrow> string \<Rightarrow> string" where
  "text_or_empty n t = (if t \<noteq> [] then take n t else ''empty'')"

section \<open>The local store\<close>

text \<open>
  Modelled from the spec: the class \<^verbatim>\<open>DBHandler\<close> (module \<^verbatim>\<open>handler\<close>) is not among the
  sources. Section 6 of the specification gives its contract: \<^verbatim>\<open>query\<close> is a point lookup
  by fingerprint that returns a row or nothing, and the three inserts add a row. The row
  of \<^verbatim>\<open>SELECT ENV_H\<close> has the one column \<^verbatim>\<open>ENV_H\<close>.
\<close>

definition query_env_h :: "world \<Rightarrow> string \<Rightarrow> string list option" where
  "query_env_h w h =
     (case filter (\<lambda>c. compute_hash c = h) (contexts w) of
        [] \<Rightarrow> None
      | c # cs \<Rightarrow> Some [compute_hash c])"

definition insert_execution_context :: "execution_context \<Rightarrow> world \<Rightarrow> world" where
  "insert_execution_context env w = w\<lparr>contexts := contexts w @ [env]\<rparr>"

definition insert_session ::
  "string \<Rightarrow> string \<Rightarrow> string \<Rightarrow> (string \<times> string) list \<Rightarrow> world \<Rightarrow> world" where
  "insert_session h run_date scm description w =
     w\<lparr>sessions := sessions w @
        [\<lparr>s_session_h = h, s_run_date = run_date, s_scm_ref = scm,
          s_description = description\<rparr>]\<rparr>"

definition insert_metric :: "string metric \<Rightarrow> world \<Rightarrow> world" where
  "insert_metric m w = w\<lparr>metrics := metrics w @ [m]\<rparr>"

section \<open>The methods of \<^verbatim>\<open>PyTestMonitorSession\<close>\<close>

text \<open>\<^verbatim>\<open>__init__\<close>: \<^verbatim>\<open>scope or []\<close> is the empty list for \<^verbatim>\<open>None\<close> and for \<^verbatim>\<open>[]\<close>.\<close>

definition init ::
  "string option \<Rightarrow> string option \<Rightarrow> string \<Rightarrow> string list option \<Rightarrow> bool
     \<Rightarrow> PyTestMonitorSession" where
  "init db_path remote_url component_tpl scope_opt tracing =
     \<lparr>db = (case db_path of None \<Rightarrow> None | Some p \<Rightarrow> if p \<noteq> [] then Some p else None),
      monitor_enabled = tracing,
      remote = remote_url,
      component = component_tpl,
      session_h = [],
      scope = (case scope_opt of None \<Rightarrow> [] | Some l \<Rightarrow> l),
      eid = (None, None),
      mem_usage_base = None,
      test_order = 0\<rparr>"

definition remote_env_id :: "PyTestMonitorSession \<Rightarrow> json option" where
  "remote_env_id s = snd (eid s)"

definition db_env_id :: "PyTestMonitorSession \<Rightarrow> string option" where
  "db_env_id s = fst (eid s)"

definition increment_test_order :: "PyTestMonitorSession \<Rightarrow> int \<times> PyTestMonitorSession" where
  "increment_test_order s = (test_order s + 1, s\<lparr>test_order := test_order s + 1\<rparr>)"

text \<open>
  Lines 74 to 86 of \<^verbatim>\<open>get_env_id\<close>: the lookup of the fingerprint on the remote server.
  It is entered with \<^verbatim>\<open>self.__remote\<close> true.
\<close>

definition get_env_id_remote ::
  "platform \<Rightarrow> execution_context \<Rightarrow> string \<Rightarrow> world \<Rightarrow> (py_error + json option) \<times> world" where
  "get_env_id_remote P env base w =
     (let url = base @ ''/contexts/'' @ compute_hash env;
          w1 = log_stdout (Log_GET url) w
      in case http P (GET url) w1 of
           (Transport_error, w2) \<Rightarrow> (Inl RequestException, w2)
         | (Response code body, w2) \<Rightarrow>
             (let w3 = log_stdout (Log_GET_response code) w2
              in if code = 200 then
                   (case json_loads P body of
                      Inl e \<Rightarrow> (Inl e, w3)
                    | Inr j \<Rightarrow>
                        (let w4 = log_stdout (Log_GET_response_body j) w3
                         in case getitem_key j ''contexts'' of
                              Inl e \<Rightarrow> (Inl e, w4)
                            | Inr cs \<Rightarrow>
                                if json_truthy cs then
                                  (case getitem_idx cs 0 of
                                     Inl e \<Rightarrow> (Inl e, w4)
                                   | Inr c0 \<Rightarrow>
                                       (case getitem_key c0 ''h'' of
                                          Inl e \<Rightarrow> (Inl e, w4)
                                        | Inr h \<Rightarrow> (Inr (opt_of_json h), w4)))
                                else (Inr None, w4)))
                 else (Inr None, w3)))"

text \<open>\<^verbatim>\<open>get_env_id\<close>: the keys of the environment in the local store and on the server.\<close>

definition get_env_id ::
  "platform \<Rightarrow> execution_context \<Rightarrow> PyTestMonitorSession \<Rightarrow> world
     \<Rightarrow> (py_error + string option \<times> json option) \<times> world" where
  "get_env_id P env s w =
     (let db_id =
            (if db s \<noteq> None then
               (case query_env_h w (compute_hash env) of
                  None \<Rightarrow> None
                | Some [] \<Rightarrow> None
                | Some (c # cs) \<Rightarrow> Some c)
             else None)
      in if truthy (remote s) then
           (case get_env_id_remote P env (the (remote s)) w of
              (Inl e, w1) \<Rightarrow> (Inl e, w1)
            | (Inr remote_id, w1) \<Rightarrow> (Inr (db_id, remote_id), w1))
         else (Inr (db_id, None), w))"

text \<open>
  \<^verbatim>\<open>prepare\<close>: the memory baseline. \<^verbatim>\<open>memuse[0]\<close> raises on an empty list.
\<close>

definition prepare ::
  "platform \<Rightarrow> PyTestMonitorSession \<Rightarrow> (py_error + unit) \<times> PyTestMonitorSession" where
  "prepare P s =
     (case memory_usage P of
        Mem_list xs \<Rightarrow>
          (case index xs 0 of
             Inl e \<Rightarrow> (Inl e, s)
           | Inr m \<Rightarrow> (Inr (), s\<lparr>mem_usage_base := Some m\<rparr>))
      | Mem_float m \<Rightarrow> (Inr (), s\<lparr>mem_usage_base := Some m\<rparr>))"

text \<open>
  Lines 136 to 138 of \<^verbatim>\<open>set_environment_info\<close>: the context is inserted when the store
  is configured and the lookup found nothing, and the key is read back.
  \<^verbatim>\<open>query(...)[0]\<close> raises when the query returns \<^verbatim>\<open>None\<close> or an empty row.
\<close>

definition register_local ::
  "execution_context \<Rightarrow> PyTestMonitorSession \<Rightarrow> string option \<Rightarrow> world
     \<Rightarrow> (py_error + string option) \<times> world" where
  "register_local env s db_id w =
     (if db s \<noteq> None \<and> db_id = None then
        (let w1 = insert_execution_context env w
         in case query_env_h w1 (compute_hash env) of
              None \<Rightarrow> (Inl TypeError, w1)
            | Some row \<Rightarrow>
                (case index row 0 of
                   Inl e \<Rightarrow> (Inl e, w1)
                 | Inr c \<Rightarrow> (Inr (Some c), w1)))
      else (Inr db_id, w))"

text \<open>
  Lines 139 to 151: the context is posted when the server is enabled and the lookup
  found nothing. On a status other than 201 the warning comes first (line 147) and the
  server is disabled after it (line 148): a warning that raises leaves the server enabled.
\<close>

definition register_remote ::
  "platform \<Rightarrow> execution_context \<Rightarrow> PyTestMonitorSession \<Rightarrow> json option \<Rightarrow> world
     \<Rightarrow> (py_error + json option) \<times> PyTestMonitorSession \<times> world" where
  "register_remote P env s remote_id w =
     (if truthy (remote s) \<and> remote_id = None then
        (let url = the (remote s) @ ''/contexts/'';
             body = Context_payload (to_dict env);
             w1 = log_stdout (Log_POST_payload body) (log_stdout (Log_POST url) w)
         in case http P (POST url body) w1 of
              (Transport_error, w2) \<Rightarrow> (Inl RequestException, s, w2)
            | (Response code txt, w2) \<Rightarrow>
                (let w3 = log_stdout (Log_POST_response code (text_or_empty 500 txt)) w2
                 in if code \<noteq> 201 then
                      (case warn P (Cannot_insert_context code) w3 of
                         (Inl e, w4) \<Rightarrow> (Inl e, s, w4)
                       | (Inr u, w4) \<Rightarrow> (Inr remote_id, s\<lparr>remote := Some []\<rparr>, w4))
                    else
                      (case json_loads P txt of
                         Inl e \<Rightarrow> (Inl e, s, w3)
                       | Inr j \<Rightarrow>
                           (case getitem_key j ''h'' of
                              Inl e \<Rightarrow> (Inl e, s, w3)
                            | Inr h \<Rightarrow>
                                (Inr (opt_of_json h), s,
                                 log_stdout (Log_got_remote_context_id (opt_of_json h)) w3)))))
      else (Inr remote_id, s, w))"

text \<open>\<^verbatim>\<open>set_environment_info\<close>\<close>

definition set_environment_info ::
  "platform \<Rightarrow> execution_context \<Rightarrow> PyTestMonitorSession \<Rightarrow> world
     \<Rightarrow> (py_error + unit) \<times> PyTestMonitorSession \<times> world" where
  "set_environment_info P env s w =
     (case get_env_id P env s w of
        (Inl e, w1) \<Rightarrow> (Inl e, s, w1)
      | (Inr (db_id, remote_id), w1) \<Rightarrow>
          (let s1 = s\<lparr>eid := (db_id, remote_id)\<rparr>;
               w2 = log_stdout (Log_env_ids db_id remote_id) w1
           in case register_local env s1 db_id w2 of
                (Inl e, w3) \<Rightarrow> (Inl e, s1, w3)
              | (Inr db_id', w3) \<Rightarrow>
                  (case register_remote P env s1 remote_id w3 of
                     (Inl e, s2, w4) \<Rightarrow> (Inl e, s2, w4)
                   | (Inr remote_id', s2, w4) \<Rightarrow>
                       (Inr (), s2\<lparr>eid := (db_id', remote_id')\<rparr>,
                        log_stdout (Log_final_env_ids db_id' remote_id') w4))))"

text \<open>
  A tag of \<^verbatim>\<open>compute_info\<close> is a string or a sequence of strings
  (\<^verbatim>\<open>type(tag) is str\<close> chooses the branch).
\<close>

datatype tag = Single string | Group "string list"

text \<open>\<^verbatim>\<open>s.split("=", 1)\<close>: one piece without \<^verbatim>\<open>=\<close>, otherwise the two around the first.\<close>

definition split_eq1 :: "string \<Rightarrow> string list" where
  "split_eq1 t =
     (if CHR ''='' \<in> set t
      then [takeWhile (\<lambda>c. c \<noteq> CHR ''='') t, tl (dropWhile (\<lambda>c. c \<noteq> CHR ''='') t)]
      else [t])"

text \<open>
  \<^verbatim>\<open>d[_tag_info[0]] = _tag_info[1]\<close>: the right-hand side is evaluated first. The dict
  keeps insertion order, as \<open>AList.update\<close> does.
\<close>

definition set_tag ::
  "string \<Rightarrow> (string \<times> string) list \<Rightarrow> py_error + (string \<times> string) list" where
  "set_tag t d =
     (let tag_info = split_eq1 t
      in case index tag_info 1 of
           Inl e \<Rightarrow> Inl e
         | Inr v \<Rightarrow>
             (case index tag_info 0 of
                Inl e \<Rightarrow> Inl e
              | Inr k \<Rightarrow> Inr (AList.update k v d)))"

text \<open>The inner loop, over the strings of a nested tag.\<close>

fun set_sub_tags ::
  "string list \<Rightarrow> (string \<times> string) list \<Rightarrow> py_error + (string \<times> string) list" where
  "set_sub_tags [] d = Inr d"
| "set_sub_tags (t # ts) d =
     (case set_tag t d of Inl e \<Rightarrow> Inl e | Inr d' \<Rightarrow> set_sub_tags ts d')"

text \<open>The loop over the tags.\<close>

fun set_tags ::
  "tag list \<Rightarrow> (string \<times> string) list \<Rightarrow> py_error + (string \<times> string) list" where
  "set_tags [] d = Inr d"
| "set_tags (Single t # ts) d =
     (case set_tag t d of Inl e \<Rightarrow> Inl e | Inr d' \<Rightarrow> set_tags ts d')"
| "set_tags (Group sub # ts) d =
     (case set_sub_tags sub d of Inl e \<Rightarrow> Inl e | Inr d' \<Rightarrow> set_tags ts d')"

text \<open>
  The hash object of \<^verbatim>\<open>hashlib.md5()\<close>: the bytes fed to it so far. \<^verbatim>\<open>update\<close> appends,
  \<^verbatim>\<open>hexdigest\<close> is the digest of all of them. A string and its encoding are the same
  list of bytes.
\<close>

definition md5_new :: string where
  "md5_new = []"

definition md5_update :: "string \<Rightarrow> string \<Rightarrow> string" where
  "md5_update h b = h @ b"

definition md5_hexdigest :: "platform \<Rightarrow> string \<Rightarrow> string" where
  "md5_hexdigest P h = md5_hex P h"

text \<open>
  Lines 113 to 130 of \<^verbatim>\<open>compute_info\<close>: the session goes to each sink. The description
  is the mapping itself: \<^verbatim>\<open>json.loads(json.dumps(d))\<close> is \<^verbatim>\<open>d\<close> for a dict of strings.
  On a status other than 201 the server is disabled first (line 128), then the warning
  comes (line 130).
\<close>

definition store_session ::
  "platform \<Rightarrow> string \<Rightarrow> string \<Rightarrow> (string \<times> string) list \<Rightarrow> PyTestMonitorSession \<Rightarrow> world
     \<Rightarrow> (py_error + unit) \<times> PyTestMonitorSession \<times> world" where
  "store_session P run_date scm description s w =
     (let w1 = (if db s \<noteq> None then insert_session (session_h s) run_date scm description w
                else w)
      in if truthy (remote s) then
           (let url = the (remote s) @ ''/sessions/'';
                body = Session_payload
                  \<lparr>s_session_h = session_h s, s_run_date = run_date, s_scm_ref = scm,
                   s_description = description\<rparr>;
                w2 = log_stdout (Log_POST_payload body) (log_stdout (Log_POST url) w1)
            in case http P (POST url body) w2 of
                 (Transport_error, w3) \<Rightarrow> (Inl RequestException, s, w3)
               | (Response code txt, w3) \<Rightarrow>
                   (let w4 = log_stdout (Log_POST_response code (text_or_empty 200 txt)) w3
                    in if code \<noteq> 201 then
                         (case warn P (Cannot_insert_session code) w4 of
                            (Inl e, w5) \<Rightarrow> (Inl e, s\<lparr>remote := Some []\<rparr>, w5)
                          | (Inr u, w5) \<Rightarrow> (Inr (), s\<lparr>remote := Some []\<rparr>, w5))
                       else (Inr (), s, w4)))
         else (Inr (), s, w1))"

text \<open>\<^verbatim>\<open>compute_info\<close>\<close>

definition compute_info ::
  "platform \<Rightarrow> string \<Rightarrow> tag list \<Rightarrow> PyTestMonitorSession \<Rightarrow> world
     \<Rightarrow> (py_error + unit) \<times> PyTestMonitorSession \<times> world" where
  "compute_info P description tags s w =
     (let run_date = now_iso P;
          scm = scm_revision P;
          h = md5_update (md5_update (md5_update md5_new scm) run_date) description;
          s1 = s\<lparr>session_h := md5_hexdigest P h\<rparr>;
          d = ci_info P;
          d1 = (if description \<noteq> [] then AList.update ''description'' description d else d)
      in case set_tags tags d1 of
           Inl e \<Rightarrow> (Inl e, s1, w)
         | Inr d2 \<Rightarrow>
             (case prepare P s1 of
                (Inl e, s2) \<Rightarrow> (Inl e, s2, w)
              | (Inr u, s2) \<Rightarrow>
                  (case set_environment_info P (new_execution_context P) s2 w of
                     (Inl e, s3, w3) \<Rightarrow> (Inl e, s3, w3)
                   | (Inr u', s3, w3) \<Rightarrow> store_session P run_date scm d2 s3 w3)))"

text \<open>\<^verbatim>\<open>item_variant.replace("-", ", ")\<close>\<close>

definition replace_dash :: "string \<Rightarrow> string" where
  "replace_dash v = concat (map (\<lambda>c. if c = CHR ''-'' then '', '' else [c]) v)"

text \<open>Lines 183 and 184: one trailing dot is cut.\<close>

definition strip_dot :: "string \<Rightarrow> string" where
  "strip_dot c = (if c \<noteq> [] \<and> last c = CHR ''.'' then butlast c else c)"

text \<open>
  The fourteen values of a metric, for either sink: the arguments of \<^verbatim>\<open>insert_metric\<close>
  (lines 187 to 202) and the payload of lines 205 to 220 hold the same ones, after the
  environment key.
\<close>

definition metric_values ::
  "string \<Rightarrow> string \<Rightarrow> string \<Rightarrow> string \<Rightarrow> string \<Rightarrow> string \<Rightarrow> string \<Rightarrow> string
     \<Rightarrow> real \<Rightarrow> real \<Rightarrow> real \<Rightarrow> real \<Rightarrow> real \<Rightarrow> 'e \<Rightarrow> 'e metric" where
  "metric_values session start item item_path variant item_loc kind final_component
       total_time user_time kernel_time cpu_usage mem env =
     \<lparr>m_session_h = session, m_env = env, m_item_start_time = start, m_item = item,
      m_item_path = item_path, m_item_variant = variant, m_item_loc = item_loc,
      m_kind = kind, m_component = final_component, m_total_time = total_time,
      m_user_time = user_time, m_kernel_time = kernel_time, m_cpu_usage = cpu_usage,
      m_mem_usage = mem\<rparr>"

text \<open>
  Lines 186 to 231 of \<^verbatim>\<open>add_test_info\<close>: the normalised metric goes to each sink. The
  arguments \<open>db_row\<close> and \<open>remote_row\<close> give the metric for an environment key. On a
  status other than 201 the server is disabled first (line 225), then the warning comes
  (line 227).
\<close>

definition dispatch_metric ::
  "platform \<Rightarrow> string \<Rightarrow> real \<Rightarrow> (string \<Rightarrow> string metric) \<Rightarrow> (json \<Rightarrow> json metric)
     \<Rightarrow> PyTestMonitorSession \<Rightarrow> world \<Rightarrow> (py_error + unit) \<times> PyTestMonitorSession \<times> world" where
  "dispatch_metric P item mem db_row remote_row s w =
     (let w1 = (case db_env_id s of
                  Some e \<Rightarrow> if db s \<noteq> None then insert_metric (db_row e) w else w
                | None \<Rightarrow> w)
      in case remote_env_id s of
           Some r \<Rightarrow>
             if truthy (remote s) then
               (let url = the (remote s) @ ''/metrics/'';
                    w2 = log_stdout (Log_POST_metric url item mem) w1
                in case http P (POST url (Metric_payload (remote_row r))) w2 of
                     (Transport_error, w3) \<Rightarrow> (Inl RequestException, s, w3)
                   | (Response code txt, w3) \<Rightarrow>
                       if code \<noteq> 201 then
                         (case warn P (Cannot_insert_values code)
                                 (log_stdout (Log_metric_failed code (text_or_empty 200 txt)) w3) of
                            (Inl e, w4) \<Rightarrow> (Inl e, s\<lparr>remote := Some []\<rparr>, w4)
                          | (Inr u, w4) \<Rightarrow> (Inr (), s\<lparr>remote := Some []\<rparr>, w4))
                       else (Inr (), s, log_stdout (Log_metric_ok item) w3))
             else (Inr (), s, w1)
         | None \<Rightarrow>
             if truthy (remote s) then
               (Inr (), s, log_stdout (Log_metric_skipped_no_env item) w1)
             else (Inr (), s, w1))"

text \<open>
  \<^verbatim>\<open>add_test_info\<close>. Before the first call of \<^verbatim>\<open>prepare\<close> the baseline is \<^verbatim>\<open>None\<close> and
  the subtraction raises; a zero \<^verbatim>\<open>total_time\<close> makes the division raise.
\<close>

definition add_test_info ::
  "platform \<Rightarrow> string \<Rightarrow> string \<Rightarrow> string \<Rightarrow> string \<Rightarrow> string \<Rightarrow> string
     \<Rightarrow> real \<Rightarrow> real \<Rightarrow> real \<Rightarrow> real \<Rightarrow> real \<Rightarrow> PyTestMonitorSession \<Rightarrow> world
     \<Rightarrow> (py_error + unit) \<times> PyTestMonitorSession \<times> world" where
  "add_test_info P item item_path item_variant item_loc kind user_component
       item_start_time total_time user_time kernel_time mem_usage s w =
     (if kind \<notin> set (scope s) then
        (Inr (), s, log_stdout (Log_metric_skipped_scope kind (scope s) item) w)
      else
        (case mem_usage_base s of
           None \<Rightarrow> (Inl TypeError, s, w)
         | Some base \<Rightarrow>
             (let mem = mem_usage - base
              in if total_time = 0 then (Inl ZeroDivisionError, s, w)
                 else
                   (let cpu_usage = (user_time + kernel_time) / total_time
                    in case fromtimestamp_iso P item_start_time of
                         Inl e \<Rightarrow> (Inl e, s, w)
                       | Inr start \<Rightarrow>
                           (case str_format P (component s) user_component of
                              Inl e \<Rightarrow> (Inl e, s, w)
                            | Inr c \<Rightarrow>
                                (let final_component = strip_dot c;
                                     variant = replace_dash item_variant
                                 in dispatch_metric P item mem
                                      (metric_values (session_h s) start item item_path variant
                                         item_loc kind final_component total_time user_time
                                         kernel_time cpu_usage mem)
                                      (metric_values (session_h s) start item item_path variant
                                         item_loc kind final_component total_time user_time
                                         kernel_time cpu_usage mem)
                                      s w))))))"

text \<open>
  \<^verbatim>\<open>add_system_memory_snapshot\<close>: the request stands in a \<^verbatim>\<open>try\<close> whose handler only
  prints. \<^verbatim>\<open>1024 ** 2\<close> is 1048576.
\<close>

definition add_system_memory_snapshot ::
  "platform \<Rightarrow> string \<Rightarrow> string \<Rightarrow> PyTestMonitorSession \<Rightarrow> world
     \<Rightarrow> (py_error + unit) \<times> PyTestMonitorSession \<times> world" where
  "add_system_memory_snapshot P item_path item s w =
     (if \<not> truthy (remote s) then (Inr (), s, w)
      else
        (case increment_test_order s of
           (order, s1) \<Rightarrow>
             (let vm = virtual_memory P;
                  body = Sysmem_payload
                    \<lparr>y_session_h = session_h s1, y_test_order = order,
                     y_item_path = item_path, y_item = item,
                     y_total_memory_mb = vm_total vm / 1048576,
                     y_available_memory_mb = vm_available vm / 1048576,
                     y_used_memory_mb = vm_used vm / 1048576,
                     y_memory_percent = vm_percent vm,
                     y_process_rss_mb = proc_rss P / 1048576,
                     y_process_vms_mb = proc_vms P / 1048576,
                     y_cached_mb = map_option (\<lambda>x. x / 1048576) (vm_cached vm),
                     y_buffers_mb = map_option (\<lambda>x. x / 1048576) (vm_buffers vm),
                     y_swap_used_mb = swap_used P / 1048576,
                     y_recorded_at = now_iso P\<rparr>;
                  url = the (remote s1) @ ''/system-memory/''
              in case http P (POST url body) w of
                   (Transport_error, w1) \<Rightarrow>
                     (Inr (), s1, log_stdout (Log_sysmem_error RequestException) w1)
                 | (Response code txt, w1) \<Rightarrow>
                     if code \<noteq> 201 then
                       (Inr (), s1,
                        log_stdout (Log_sysmem_failed code (text_or_empty 200 txt)) w1)
                     else (Inr (), s1, w1))))"

section \<open>Sequences of calls\<close>

text \<open>
  The test runner's hooks call the methods one after the other in one process. A call
  that raises leaves the object and the sinks as they are at the raise, and the next
  hook calls the object again. Each call has its own platform: the clock and the
  readings change between calls.
\<close>

datatype call =
  Compute_info string "tag list"
  | Set_environment_info execution_context
  | Get_env_id execution_context
  | Prepare
  | Increment_test_order
  | Add_test_info string string string string string string real real real real real
  | Add_system_memory_snapshot string string

fun step ::
  "platform \<Rightarrow> call \<Rightarrow> PyTestMonitorSession \<Rightarrow> world
     \<Rightarrow> (py_error + unit) \<times> PyTestMonitorSession \<times> world" where
  "step P (Compute_info description tags) s w = compute_info P description tags s w"
| "step P (Set_environment_info env) s w = set_environment_info P env s w"
| "step P (Get_env_id env) s w =
     (case get_env_id P env s w of (Inl e, w') \<Rightarrow> (Inl e, s, w') | (Inr ids, w') \<Rightarrow> (Inr (), s, w'))"
| "step P Prepare s w = (case prepare P s of (r, s') \<Rightarrow> (r, s', w))"
| "step P Increment_test_order s w = (Inr (), snd (increment_test_order s), w)"
| "step P (Add_test_info item item_path item_variant item_loc kind user_component
       item_start_time total_time user_time kernel_time mem_usage) s w =
     add_test_info P item item_path item_variant item_loc kind user_component
       item_start_time total_time user_time kernel_time mem_usage s w"
| "step P (Add_system_memory_snapshot item_path item) s w =
     add_system_memory_snapshot P item_path item s w"

fun run ::
  "(platform \<times> call) list \<Rightarrow> PyTestMonitorSession \<Rightarrow> world \<Rightarrow> PyTestMonitorSession \<times> world" where
  "run [] s w = (s, w)"
| "run ((P, c) # cs) s w = (case step P c s w of (r, s', w') \<Rightarrow> run cs s' w')"

section \<open>A test double\<close>

text \<open>
  A platform for concrete runs, with a parameter for the status of the server's replies
  to \<^verbatim>\<open>POST\<close>. The server knows no context (the lookup returns an empty list) and
  registers every context as \<open>r1\<close>; the two bodies it sends are written without their
  quotation marks. The digest is the identity, so that the bytes hashed can be read off.
  Warnings are issued, not raised.
\<close>

definition fake_server :: "http_reply \<Rightarrow> request list \<Rightarrow> request \<Rightarrow> http_reply" where
  "fake_server post_reply hist req =
     (case req of GET u \<Rightarrow> Response 200 ''{contexts: []}'' | POST u p \<Rightarrow> post_reply)"

definition fake_loads :: "string \<Rightarrow> py_error + json" where
  "fake_loads t =
     (if t = ''{contexts: []}'' then Inr (JObj [(''contexts'', JArr [])])
      else if t = ''{h: r1}'' then Inr (JObj [(''h'', JStr ''r1'')])
      else Inl ValueError)"

definition fake_platform :: "http_reply \<Rightarrow> platform" where
  "fake_platform post_reply =
     \<lparr>server = fake_server post_reply,
      json_loads = fake_loads,
      md5_hex = (\<lambda>b. b),
      now_iso = ''2024-01-01T00:00:00'',
      scm_revision = ''abc123'',
      ci_info = [(''__ci__'', ''jenkinsci'')],
      new_execution_context = \<lparr>compute_hash = ''e1'', to_dict = JObj []\<rparr>,
      memory_usage = Mem_list [100],
      fromtimestamp_iso = (\<lambda>t. Inr ''1970-01-01T00:00:00''),
      str_format = (\<lambda>template c. Inr c),
      virtual_memory =
        \<lparr>vm_total = 8, vm_available = 4, vm_used = 4, vm_percent = 50,
         vm_cached = Some 1, vm_buffers = None\<rparr>,
      swap_used = 0,
      proc_rss = 1,
      proc_vms = 2,
      warnings_as_errors = False\<rparr>"

definition empty_world :: world where
  "empty_world =
     \<lparr>contexts = [], sessions = [], metrics = [], sent = [], warnings = [], stdout = []\<rparr>"

text \<open>
  An object after session establishment: both sinks configured, the environment known to
  both, baseline 100, scope \<open>function\<close>.
\<close>

definition demo_session :: PyTestMonitorSession where
  "demo_session =
     \<lparr>db = Some ''db.sqlite'', monitor_enabled = True, remote = Some ''http://m'',
      component = [], session_h = ''s1'', scope = [''function''],
      eid = (Some ''e1'', Some (JStr ''r1'')), mem_usage_base = Some 100, test_order = 0\<rparr>"

text \<open>An environment, and its resolution twice in a row from an empty store.\<close>

definition demo_env :: execution_context where
  "demo_env = \<lparr>compute_hash = ''e1'', to_dict = JObj []\<rparr>"

definition resolve_once :: "(py_error + unit) \<times> PyTestMonitorSession \<times> world" where
  "resolve_once =
     set_environment_info (fake_platform (Response 201 ''{h: r1}'')) demo_env
       (init (Some ''db.sqlite'') (Some ''http://m'') [] None True) empty_world"

definition resolve_twice :: "(py_error + unit) \<times> PyTestMonitorSession \<times> world" where
  "resolve_twice =
     set_environment_info (fake_platform (Response 201 ''{h: r1}'')) demo_env
       (fst (snd resolve_once)) (snd (snd resolve_once))"

text \<open>
  A platform that raises warnings as errors, with a server that answers every write with
  status 500; on it, the resolution of an environment, and the same resolution once more.
\<close>

definition strict_platform :: platform where
  "strict_platform = (fake_platform (Response 500 ''down''))\<lparr>warnings_as_errors := True\<rparr>"

definition rejected_context :: "(py_error + unit) \<times> PyTestMonitorSession \<times> world" where
  "rejected_context =
     set_environment_info strict_platform demo_env
       (init (Some ''db.sqlite'') (Some ''http://m'') [] None True) empty_world"

definition retried_context :: "(py_error + unit) \<times> PyTestMonitorSession \<times> world" where
  "retried_context =
     set_environment_info strict_platform demo_env
       (fst (snd rejected_context)) (snd (snd rejected_context))"

section \<open>Notions used in the statements\<close>

text \<open>The strings of a tag, and of a list of tags in the order the loop visits them.\<close>

fun tag_strings :: "tag \<Rightarrow> string list" where
  "tag_strings (Single t) = [t]"
| "tag_strings (Group sub) = sub"

definition all_tag_strings :: "tag list \<Rightarrow> string list" where
  "all_tag_strings tags = concat (map tag_strings tags)"

text \<open>A request that writes a metric.\<close>

fun is_metric_post :: "request \<Rightarrow> bool" where
  "is_metric_post (POST u (Metric_payload m)) = True"
| "is_metric_post r = False"

text \<open>The three writes whose status the coordinator checks: session, context, metric.\<close>

fun is_primary_post :: "request \<Rightarrow> bool" where
  "is_primary_post (POST u (Session_payload p)) = True"
| "is_primary_post (POST u (Context_payload p)) = True"
| "is_primary_post (POST u (Metric_payload p)) = True"
| "is_primary_post r = False"

text \<open>A response whose status is not 201 (\<^verbatim>\<open>HTTPStatus.CREATED\<close>).\<close>

definition not_created :: "http_reply \<Rightarrow> bool" where
  "not_created r = (case r of Response code txt \<Rightarrow> code \<noteq> 201 | Transport_error \<Rightarrow> False)"

text \<open>
  Among the requests \<open>reqs\<close>, sent one after the other after the requests \<open>hist\<close>, one of
  the three checked writes got a response other than 201.
\<close>

fun rejected :: "platform \<Rightarrow> request list \<Rightarrow> request list \<Rightarrow> bool" where
  "rejected P hist [] = False"
| "rejected P hist (req # reqs) =
     ((is_primary_post req \<and> not_created (server P hist req)) \<or> rejected P (hist @ [req]) reqs)"

text \<open>
  What a call does to the requests and to the flag: it appends requests; a rejected write
  among them leaves the server disabled, when warnings are not raised as errors; a
  disabled server stays so and gets no request.
\<close>

definition effect ::
  "platform \<Rightarrow> PyTestMonitorSession \<Rightarrow> world \<Rightarrow> PyTestMonitorSession \<Rightarrow> world \<Rightarrow> bool" where
  "effect P s w s' w' =
     (\<exists>reqs. sent w' = sent w @ reqs \<and>
        (rejected P (sent w) reqs \<longrightarrow> \<not> warnings_as_errors P \<longrightarrow> \<not> truthy (remote s')) \<and>
        (\<not> truthy (remote s) \<longrightarrow> \<not> truthy (remote s') \<and> reqs = []))"

text \<open>No metric has gone to either sink between two states of the world.\<close>

definition no_metric_write :: "world \<Rightarrow> world \<Rightarrow> bool" where
  "no_metric_write w w' =
     (metrics w' = metrics w \<and>
      filter is_metric_post (sent w') = filter is_metric_post (sent w))"

section \<open>What each method leaves unchanged\<close>

lemma prepare_frame:
  "db (snd (prepare P s)) = db s \<and> scope (snd (prepare P s)) = scope s \<and>
   component (snd (prepare P s)) = component s \<and> session_h (snd (prepare P s)) = session_h s \<and>
   remote (snd (prepare P s)) = remote s \<and> eid (snd (prepare P s)) = eid s \<and>
   test_order (snd (prepare P s)) = test_order s"
  by (simp add: prepare_def split: memuse.split sum.split)

lemma register_remote_frame:
  "register_remote P env s rid w = (r, s', w') \<Longrightarrow>
   db s' = db s \<and> scope s' = scope s \<and> component s' = component s \<and>
   session_h s' = session_h s \<and> mem_usage_base s' = mem_usage_base s \<and>
   test_order s' = test_order s \<and> eid s' = eid s"
  by (auto simp: register_remote_def warn_def Let_def split: if_splits prod.splits http_reply.splits sum.splits)

lemma set_environment_info_frame:
  "set_environment_info P env s w = (r, s', w') \<Longrightarrow>
   db s' = db s \<and> scope s' = scope s \<and> component s' = component s \<and>
   session_h s' = session_h s \<and> mem_usage_base s' = mem_usage_base s \<and>
   test_order s' = test_order s"
  by (auto simp: set_environment_info_def Let_def split: prod.splits sum.splits
      dest!: register_remote_frame)

lemma store_session_frame:
  "store_session P run_date scm d s w = (r, s', w') \<Longrightarrow>
   db s' = db s \<and> scope s' = scope s \<and> component s' = component s \<and>
   session_h s' = session_h s \<and> mem_usage_base s' = mem_usage_base s \<and>
   test_order s' = test_order s \<and> eid s' = eid s"
  by (auto simp: store_session_def warn_def Let_def split: if_splits prod.splits http_reply.splits)

lemma dispatch_metric_frame:
  "dispatch_metric P item mem row rrow s w = (r, s', w') \<Longrightarrow>
   db s' = db s \<and> scope s' = scope s \<and> component s' = component s \<and>
   session_h s' = session_h s \<and> mem_usage_base s' = mem_usage_base s \<and>
   test_order s' = test_order s \<and> eid s' = eid s"
  by (auto simp: dispatch_metric_def warn_def Let_def split: if_splits option.splits prod.splits
      http_reply.splits)

lemma add_test_info_frame:
  "add_test_info P item item_path item_variant item_loc kind user_component
       item_start_time total_time user_time kernel_time mem_usage s w = (r, s', w') \<Longrightarrow>
   db s' = db s \<and> scope s' = scope s \<and> component s' = component s \<and>
   session_h s' = session_h s \<and> mem_usage_base s' = mem_usage_base s \<and>
   test_order s' = test_order s \<and> eid s' = eid s"
  by (auto simp: add_test_info_def Let_def split: if_splits option.splits sum.splits
      dest!: dispatch_metric_frame)

lemma add_system_memory_snapshot_frame:
  "add_system_memory_snapshot P item_path item s w = (r, s', w') \<Longrightarrow>
   db s' = db s \<and> scope s' = scope s \<and> component s' = component s \<and>
   session_h s' = session_h s \<and> mem_usage_base s' = mem_usage_base s \<and>
   eid s' = eid s \<and> remote s' = remote s"
  by (auto simp: add_system_memory_snapshot_def Let_def increment_test_order_def
      split: if_splits prod.splits http_reply.splits)

section \<open>The tags of \<^verbatim>\<open>compute_info\<close>\<close>

lemma set_tag_no_eq: "CHR ''='' \<notin> set t \<Longrightarrow> set_tag t d = Inl IndexError"
  by (simp add: set_tag_def split_eq1_def index_def)

lemma set_tag_eq: "CHR ''='' \<in> set t \<Longrightarrow> \<exists>d'. set_tag t d = Inr d'"
  by (simp add: set_tag_def split_eq1_def index_def)

lemma set_sub_tags_no_eq:
  "\<exists>t\<in>set ts. CHR ''='' \<notin> set t \<Longrightarrow> set_sub_tags ts d = Inl IndexError"
proof (induction ts arbitrary: d)
  case Nil
  then show ?case by simp
next
  case (Cons t ts)
  show ?case
  proof (cases "CHR ''='' \<in> set t")
    case True
    then obtain d' where "set_tag t d = Inr d'" using set_tag_eq by blast
    with Cons True show ?thesis by auto
  next
    case False
    then show ?thesis by (simp add: set_tag_no_eq)
  qed
qed

lemma set_sub_tags_eq:
  "\<forall>t\<in>set ts. CHR ''='' \<in> set t \<Longrightarrow> \<exists>d'. set_sub_tags ts d = Inr d'"
proof (induction ts arbitrary: d)
  case Nil
  then show ?case by simp
next
  case (Cons t ts)
  then obtain d' where "set_tag t d = Inr d'" using set_tag_eq by force
  with Cons show ?case by auto
qed

lemma set_tags_no_eq:
  "\<exists>t\<in>set (all_tag_strings tags). CHR ''='' \<notin> set t \<Longrightarrow> set_tags tags d = Inl IndexError"
proof (induction tags d rule: set_tags.induct)
  case (1 d)
  then show ?case by (simp add: all_tag_strings_def)
next
  case (2 t ts d)
  show ?case
  proof (cases "CHR ''='' \<in> set t")
    case True
    then obtain d' where d': "set_tag t d = Inr d'" using set_tag_eq by blast
    from 2(2) True have "\<exists>t\<in>set (all_tag_strings ts). CHR ''='' \<notin> set t"
      by (auto simp: all_tag_strings_def)
    with 2(1)[OF d'] d' show ?thesis by simp
  next
    case False
    then show ?thesis by (simp add: set_tag_no_eq)
  qed
next
  case (3 sub ts d)
  show ?case
  proof (cases "\<forall>t\<in>set sub. CHR ''='' \<in> set t")
    case True
    then obtain d' where d': "set_sub_tags sub d = Inr d'" using set_sub_tags_eq by blast
    from 3(2) True have "\<exists>t\<in>set (all_tag_strings ts). CHR ''='' \<notin> set t"
      by (auto simp: all_tag_strings_def)
    with 3(1)[OF d'] d' show ?thesis by simp
  next
    case False
    then show ?thesis by (simp add: set_sub_tags_no_eq)
  qed
qed

lemma set_tags_eq:
  "\<forall>t\<in>set (all_tag_strings tags). CHR ''='' \<in> set t \<Longrightarrow> \<exists>d'. set_tags tags d = Inr d'"
proof (induction tags d rule: set_tags.induct)
  case (1 d)
  then show ?case by simp
next
  case (2 t ts d)
  then obtain d' where d': "set_tag t d = Inr d'"
    using set_tag_eq by (force simp: all_tag_strings_def)
  from 2(2) have "\<forall>t\<in>set (all_tag_strings ts). CHR ''='' \<in> set t"
    by (simp add: all_tag_strings_def)
  with 2(1)[OF d'] d' show ?case by simp
next
  case (3 sub ts d)
  then obtain d' where d': "set_sub_tags sub d = Inr d'"
    using set_sub_tags_eq by (force simp: all_tag_strings_def)
  from 3(2) have "\<forall>t\<in>set (all_tag_strings ts). CHR ''='' \<in> set t"
    by (simp add: all_tag_strings_def)
  with 3(1)[OF d'] d' show ?case by simp
qed

section \<open>Requests and the flag of the remote server\<close>

lemma rejected_append:
  "rejected P hist (xs @ ys) = (rejected P hist xs \<or> rejected P (hist @ xs) ys)"
  by (induction xs arbitrary: hist) auto

lemma effect_refl: "sent w' = sent w \<Longrightarrow> remote s' = remote s \<Longrightarrow> effect P s w s' w'"
  by (simp add: effect_def)

lemma effect_trans:
  assumes "effect P s w s1 w1" and "effect P s1 w1 s2 w2"
    and "\<not> truthy (remote s1) \<Longrightarrow> \<not> truthy (remote s2)"
  shows "effect P s w s2 w2"
proof -
  from assms(1) obtain r1 where r1: "sent w1 = sent w @ r1"
    "rejected P (sent w) r1 \<longrightarrow> \<not> warnings_as_errors P \<longrightarrow> \<not> truthy (remote s1)"
    "\<not> truthy (remote s) \<longrightarrow> \<not> truthy (remote s1) \<and> r1 = []"
    unfolding effect_def by blast
  from assms(2) obtain r2 where r2: "sent w2 = sent w1 @ r2"
    "rejected P (sent w1) r2 \<longrightarrow> \<not> warnings_as_errors P \<longrightarrow> \<not> truthy (remote s2)"
    "\<not> truthy (remote s1) \<longrightarrow> \<not> truthy (remote s2) \<and> r2 = []"
    unfolding effect_def by blast
  have "sent w2 = sent w @ (r1 @ r2)" using r1(1) r2(1) by simp
  moreover have "rejected P (sent w) (r1 @ r2) \<longrightarrow> \<not> warnings_as_errors P \<longrightarrow> \<not> truthy (remote s2)"
    using r1 r2 by (auto simp: rejected_append)
  moreover have "\<not> truthy (remote s) \<longrightarrow> \<not> truthy (remote s2) \<and> r1 @ r2 = []"
    using r1 r2 by auto
  ultimately show ?thesis unfolding effect_def by blast
qed

lemma get_env_id_remote_effect:
  "get_env_id_remote P env base w = (r, w') \<Longrightarrow>
     sent w' = sent w @ [GET (base @ ''/contexts/'' @ compute_hash env)]"
  by (auto simp: get_env_id_remote_def Let_def http_def log_stdout_def
      split: http_reply.splits if_splits sum.splits)

lemma get_env_id_effect:
  "get_env_id P env s w = (r, w') \<Longrightarrow> effect P s w s w'"
  by (auto simp: get_env_id_def effect_def not_created_def Let_def split: if_splits prod.splits sum.splits
      dest!: get_env_id_remote_effect)

lemma register_remote_effect:
  "register_remote P env s rid w = (r, s', w') \<Longrightarrow> effect P s w s' w'"
  by (auto simp: register_remote_def effect_def Let_def http_def log_stdout_def warn_def truthy_def
      not_created_def
      split: if_splits http_reply.splits sum.splits)

lemma register_local_sent:
  "register_local env s d w = (r, w') \<Longrightarrow> sent w' = sent w"
  by (auto simp: register_local_def Let_def insert_execution_context_def
      split: if_splits option.splits sum.splits)

lemma store_session_effect:
  "store_session P run_date scm d s w = (r, s', w') \<Longrightarrow> effect P s w s' w'"
  by (auto simp: store_session_def effect_def Let_def http_def log_stdout_def warn_def truthy_def
      not_created_def insert_session_def
      split: if_splits http_reply.splits)


lemma register_remote_disabled:
  "register_remote P env s rid w = (r, s', w') \<Longrightarrow> \<not> truthy (remote s) \<Longrightarrow> \<not> truthy (remote s')"
  by (auto simp: register_remote_def)

lemma set_environment_info_effect:
  assumes "set_environment_info P env s w = (r, s', w')"
  shows "effect P s w s' w'"
proof (cases "get_env_id P env s w")
  case (Pair g w1)
  note g = Pair
  have e1: "effect P s w s w1" using g by (rule get_env_id_effect)
  show ?thesis
  proof (cases g)
    case (Inl e)
    with assms g e1 show ?thesis by (simp add: set_environment_info_def)
  next
    case (Inr ids)
    obtain db_id rid where ids: "ids = (db_id, rid)" by (cases ids)
    let ?s1 = "s\<lparr>eid := (db_id, rid)\<rparr>"
    let ?w2 = "log_stdout (Log_env_ids db_id rid) w1"
    have e2: "effect P s w ?s1 ?w2"
      using e1 by (simp add: effect_def log_stdout_def)
    obtain l w3 where l: "register_local env ?s1 db_id ?w2 = (l, w3)"
      by (cases "register_local env ?s1 db_id ?w2")
    have e3: "effect P s w ?s1 w3"
      using e2 register_local_sent[OF l] by (simp add: effect_def)
    show ?thesis
    proof (cases l)
      case (Inl e)
      with assms g Inr ids l e3 show ?thesis
        by (simp add: set_environment_info_def Let_def)
    next
      case (Inr db_id')
      obtain rr s2 w4 where rr: "register_remote P env ?s1 rid w3 = (rr, s2, w4)"
        by (cases "register_remote P env ?s1 rid w3")
      have e4: "effect P s w s2 w4"
        using e3 register_remote_effect[OF rr] register_remote_disabled[OF rr]
        by (rule effect_trans)
      show ?thesis
      proof (cases rr)
        case (Inl e)
        with assms g \<open>g = Inr ids\<close> ids l \<open>l = Inr db_id'\<close> rr e4 show ?thesis
          by (simp add: set_environment_info_def Let_def)
      next
        case (Inr rid')
        with assms g \<open>g = Inr ids\<close> ids l \<open>l = Inr db_id'\<close> rr
        have "s' = s2\<lparr>eid := (db_id', rid')\<rparr>"
          and "w' = log_stdout (Log_final_env_ids db_id' rid') w4"
          by (simp_all add: set_environment_info_def Let_def)
        with e4 show ?thesis by (simp add: effect_def log_stdout_def)
      qed
    qed
  qed
qed

lemma set_environment_info_disabled:
  "set_environment_info P env s w = (r, s', w') \<Longrightarrow> \<not> truthy (remote s) \<Longrightarrow> \<not> truthy (remote s')"
  using set_environment_info_effect[of P env s w r s' w'] by (simp add: effect_def)

lemma store_session_disabled:
  "store_session P run_date scm d s w = (r, s', w') \<Longrightarrow> \<not> truthy (remote s) \<Longrightarrow> \<not> truthy (remote s')"
  by (auto simp: store_session_def)

lemma prepare_remote: "remote (snd (prepare P s)) = remote s"
  by (simp add: prepare_def split: memuse.split sum.split)

lemma compute_info_effect:
  assumes "compute_info P description tags s w = (r, s', w')"
  shows "effect P s w s' w'"
proof -
  let ?s1 = "s\<lparr>session_h := md5_hexdigest P
      (md5_update (md5_update (md5_update md5_new (scm_revision P)) (now_iso P)) description)\<rparr>"
  let ?d1 = "if description \<noteq> [] then AList.update ''description'' description (ci_info P)
      else ci_info P"
  show ?thesis
  proof (cases "set_tags tags ?d1")
    case (Inl e)
    with assms show ?thesis by (auto simp: compute_info_def Let_def effect_def)
  next
    case (Inr d2)
    obtain p s2 where p: "prepare P ?s1 = (p, s2)" by (cases "prepare P ?s1")
    have s2: "remote s2 = remote s" using prepare_remote[of P ?s1] p by simp
    show ?thesis
    proof (cases p)
      case (Inl e)
      with assms Inr p s2 show ?thesis by (auto simp: compute_info_def Let_def effect_def)
    next
      case (Inr u)
      obtain q s3 w3 where q: "set_environment_info P (new_execution_context P) s2 w = (q, s3, w3)"
        by (cases "set_environment_info P (new_execution_context P) s2 w")
      have "effect P s2 w s3 w3" using q by (rule set_environment_info_effect)
      then have e3: "effect P s w s3 w3" using s2 by (simp add: effect_def)
      show ?thesis
      proof (cases q)
        case (Inl e)
        with assms \<open>set_tags tags ?d1 = Inr d2\<close> p \<open>p = Inr u\<close> q e3 show ?thesis
          by (simp add: compute_info_def Let_def)
      next
        case (Inr u')
        with assms \<open>set_tags tags ?d1 = Inr d2\<close> p \<open>p = Inr u\<close> q
        have st: "store_session P (now_iso P) (scm_revision P) d2 s3 w3 = (r, s', w')"
          by (simp add: compute_info_def Let_def)
        show ?thesis
          using e3 store_session_effect[OF st] store_session_disabled[OF st]
          by (rule effect_trans)
      qed
    qed
  qed
qed

lemma dispatch_metric_effect:
  "dispatch_metric P item mem row rrow s w = (r, s', w') \<Longrightarrow> effect P s w s' w'"
  by (auto simp: dispatch_metric_def effect_def Let_def http_def log_stdout_def warn_def truthy_def
      not_created_def insert_metric_def
      split: if_splits http_reply.splits option.splits)

lemma add_test_info_effect:
  "add_test_info P item item_path item_variant item_loc kind user_component
       item_start_time total_time user_time kernel_time mem_usage s w = (r, s', w') \<Longrightarrow>
   effect P s w s' w'"
  by (auto simp: add_test_info_def Let_def log_stdout_def effect_refl
      split: if_splits option.splits sum.splits dest: dispatch_metric_effect)

lemma add_system_memory_snapshot_effect:
  "add_system_memory_snapshot P item_path item s w = (r, s', w') \<Longrightarrow> effect P s w s' w'"
  by (auto simp: add_system_memory_snapshot_def effect_def Let_def http_def log_stdout_def
      increment_test_order_def not_created_def
      split: if_splits http_reply.splits)

lemma step_effect: "step P c s w = (r, s', w') \<Longrightarrow> effect P s w s' w'"
proof (cases c)
  case (Compute_info d t)
  then show "step P c s w = (r, s', w') \<Longrightarrow> ?thesis" by (simp add: compute_info_effect)
next
  case (Set_environment_info e)
  then show "step P c s w = (r, s', w') \<Longrightarrow> ?thesis" by (simp add: set_environment_info_effect)
next
  case (Get_env_id e)
  then show "step P c s w = (r, s', w') \<Longrightarrow> ?thesis"
    by (auto split: prod.splits sum.splits dest: get_env_id_effect)
next
  case Prepare
  then show "step P c s w = (r, s', w') \<Longrightarrow> ?thesis"
    using prepare_remote[of P s] by (auto split: prod.splits intro!: effect_refl)
next
  case Increment_test_order
  then show "step P c s w = (r, s', w') \<Longrightarrow> ?thesis"
    by (auto simp: increment_test_order_def intro!: effect_refl)
next
  case (Add_test_info a1 a2 a3 a4 a5 a6 a7 a8 a9 a10 a11)
  then show "step P c s w = (r, s', w') \<Longrightarrow> ?thesis" by (simp add: add_test_info_effect)
next
  case (Add_system_memory_snapshot a1 a2)
  then show "step P c s w = (r, s', w') \<Longrightarrow> ?thesis"
    by (simp add: add_system_memory_snapshot_effect)
qed

lemma run_disabled:
  "\<not> truthy (remote s) \<Longrightarrow> run cs s w = (s', w') \<Longrightarrow> \<not> truthy (remote s') \<and> sent w' = sent w"
proof (induction cs arbitrary: s w)
  case Nil
  then show ?case by simp
next
  case (Cons pc cs)
  obtain P c where pc: "pc = (P, c)" by (cases pc)
  obtain r s1 w1 where st: "step P c s w = (r, s1, w1)" by (cases "step P c s w")
  from step_effect[OF st] Cons.prems(1) have "\<not> truthy (remote s1)" "sent w1 = sent w"
    by (auto simp: effect_def)
  moreover from Cons.prems(2) pc st have "run cs s1 w1 = (s', w')" by simp
  ultimately show ?case using Cons.IH by metis
qed

section \<open>Calls that write no metric\<close>

lemma no_metric_write_refl: "no_metric_write w w"
  by (simp add: no_metric_write_def)

lemma no_metric_write_trans:
  "no_metric_write w w1 \<Longrightarrow> no_metric_write w1 w2 \<Longrightarrow> no_metric_write w w2"
  by (simp add: no_metric_write_def)

lemma no_metric_write_log: "no_metric_write w w1 \<Longrightarrow> no_metric_write w (log_stdout l w1)"
  by (simp add: no_metric_write_def log_stdout_def)

lemma get_env_id_remote_nmw:
  "get_env_id_remote P env base w = (r, w') \<Longrightarrow> no_metric_write w w'"
  by (auto simp: get_env_id_remote_def Let_def http_def log_stdout_def no_metric_write_def
      split: http_reply.splits if_splits sum.splits)

lemma get_env_id_nmw: "get_env_id P env s w = (r, w') \<Longrightarrow> no_metric_write w w'"
  by (auto simp: get_env_id_def Let_def no_metric_write_refl
      split: if_splits prod.splits sum.splits dest: get_env_id_remote_nmw)

lemma register_local_nmw: "register_local env s d w = (r, w') \<Longrightarrow> no_metric_write w w'"
  by (auto simp: register_local_def Let_def insert_execution_context_def no_metric_write_def
      split: if_splits option.splits sum.splits)

lemma register_remote_nmw:
  "register_remote P env s rid w = (r, s', w') \<Longrightarrow> no_metric_write w w'"
  by (auto simp: register_remote_def Let_def http_def log_stdout_def warn_def no_metric_write_def
      split: if_splits http_reply.splits sum.splits)

lemma set_environment_info_nmw:
  assumes "set_environment_info P env s w = (r, s', w')"
  shows "no_metric_write w w'"
proof (cases "get_env_id P env s w")
  case (Pair g w1)
  note g = Pair
  have n1: "no_metric_write w w1" using g by (rule get_env_id_nmw)
  show ?thesis
  proof (cases g)
    case (Inl e)
    with assms g n1 show ?thesis by (simp add: set_environment_info_def)
  next
    case (Inr ids)
    obtain db_id rid where ids: "ids = (db_id, rid)" by (cases ids)
    let ?s1 = "s\<lparr>eid := (db_id, rid)\<rparr>"
    let ?w2 = "log_stdout (Log_env_ids db_id rid) w1"
    obtain l w3 where l: "register_local env ?s1 db_id ?w2 = (l, w3)"
      by (cases "register_local env ?s1 db_id ?w2")
    have n3: "no_metric_write w w3"
      using no_metric_write_log[OF n1] register_local_nmw[OF l] by (rule no_metric_write_trans)
    show ?thesis
    proof (cases l)
      case (Inl e)
      with assms g Inr ids l n3 show ?thesis
        by (simp add: set_environment_info_def Let_def)
    next
      case (Inr db_id')
      obtain rr s2 w4 where rr: "register_remote P env ?s1 rid w3 = (rr, s2, w4)"
        by (cases "register_remote P env ?s1 rid w3")
      have n4: "no_metric_write w w4"
        using n3 register_remote_nmw[OF rr] by (rule no_metric_write_trans)
      from assms g \<open>g = Inr ids\<close> ids l \<open>l = Inr db_id'\<close> rr
      have "w' = w4 \<or> (\<exists>x. w' = log_stdout x w4)"
        by (auto simp: set_environment_info_def Let_def split: sum.splits)
      with n4 show ?thesis by (auto simp: no_metric_write_log)
    qed
  qed
qed

lemma store_session_nmw:
  "store_session P run_date scm d s w = (r, s', w') \<Longrightarrow> no_metric_write w w'"
  by (auto simp: store_session_def Let_def http_def log_stdout_def warn_def no_metric_write_def
      insert_session_def split: if_splits http_reply.splits)

lemma compute_info_nmw:
  assumes "compute_info P description tags s w = (r, s', w')"
  shows "no_metric_write w w'"
  using assms
  by (auto simp: compute_info_def Let_def no_metric_write_refl
      split: sum.splits prod.splits
      dest!: set_environment_info_nmw store_session_nmw intro: no_metric_write_trans)

lemma add_system_memory_snapshot_nmw:
  "add_system_memory_snapshot P item_path item s w = (r, s', w') \<Longrightarrow> no_metric_write w w'"
  by (auto simp: add_system_memory_snapshot_def Let_def http_def log_stdout_def
      increment_test_order_def no_metric_write_def
      split: if_splits http_reply.splits)

lemma add_test_info_out_of_scope:
  "kind \<notin> set (scope s) \<Longrightarrow>
   add_test_info P item item_path item_variant item_loc kind user_component
       item_start_time total_time user_time kernel_time mem_usage s w =
   (Inr (), s, log_stdout (Log_metric_skipped_scope kind (scope s) item) w)"
  by (simp add: add_test_info_def)

section \<open>Sequences of calls: scope and metrics\<close>

lemma compute_info_frame:
  assumes "compute_info P description tags s w = (r, s', w')"
  shows "db s' = db s \<and> scope s' = scope s \<and> component s' = component s \<and>
   test_order s' = test_order s"
proof -
  let ?s1 = "s\<lparr>session_h := md5_hexdigest P
      (md5_update (md5_update (md5_update md5_new (scm_revision P)) (now_iso P)) description)\<rparr>"
  show ?thesis
    using assms prepare_frame [of P ?s1]
    by (auto simp: compute_info_def Let_def split: sum.splits prod.splits
        dest!: set_environment_info_frame store_session_frame)
qed

lemma step_scope: "step P c s w = (r, s', w') \<Longrightarrow> scope s' = scope s \<and> db s' = db s"
proof (cases c)
  case (Compute_info d t)
  then show "step P c s w = (r, s', w') \<Longrightarrow> ?thesis" by (auto dest: compute_info_frame)
next
  case (Set_environment_info e)
  then show "step P c s w = (r, s', w') \<Longrightarrow> ?thesis" by (auto dest: set_environment_info_frame)
next
  case (Get_env_id e)
  then show "step P c s w = (r, s', w') \<Longrightarrow> ?thesis"
    by (auto split: prod.splits sum.splits)
next
  case Prepare
  then show "step P c s w = (r, s', w') \<Longrightarrow> ?thesis"
    using prepare_frame [of P s] by (auto split: prod.splits)
next
  case Increment_test_order
  then show "step P c s w = (r, s', w') \<Longrightarrow> ?thesis"
    by (auto simp: increment_test_order_def)
next
  case (Add_test_info a1 a2 a3 a4 a5 a6 a7 a8 a9 a10 a11)
  then show "step P c s w = (r, s', w') \<Longrightarrow> ?thesis" by (auto dest: add_test_info_frame)
next
  case (Add_system_memory_snapshot a1 a2)
  then show "step P c s w = (r, s', w') \<Longrightarrow> ?thesis"
    by (auto dest: add_system_memory_snapshot_frame)
qed

lemma step_nmw:
  "scope s = [] \<Longrightarrow> step P c s w = (r, s', w') \<Longrightarrow> no_metric_write w w'"
proof (cases c)
  case (Compute_info d t)
  then show "step P c s w = (r, s', w') \<Longrightarrow> ?thesis" by (auto dest: compute_info_nmw)
next
  case (Set_environment_info e)
  then show "step P c s w = (r, s', w') \<Longrightarrow> ?thesis" by (auto dest: set_environment_info_nmw)
next
  case (Get_env_id e)
  then show "step P c s w = (r, s', w') \<Longrightarrow> ?thesis"
    by (auto split: prod.splits sum.splits dest: get_env_id_nmw)
next
  case Prepare
  then show "step P c s w = (r, s', w') \<Longrightarrow> ?thesis"
    by (auto split: prod.splits simp: no_metric_write_refl)
next
  case Increment_test_order
  then show "step P c s w = (r, s', w') \<Longrightarrow> ?thesis"
    by (auto simp: no_metric_write_refl)
next
  case (Add_test_info a1 a2 a3 a4 a5 a6 a7 a8 a9 a10 a11)
  then show "scope s = [] \<Longrightarrow> step P c s w = (r, s', w') \<Longrightarrow> ?thesis"
    by (auto simp: add_test_info_out_of_scope no_metric_write_log no_metric_write_refl)
next
  case (Add_system_memory_snapshot a1 a2)
  then show "step P c s w = (r, s', w') \<Longrightarrow> ?thesis"
    by (auto dest: add_system_memory_snapshot_nmw)
qed

lemma run_empty_scope:
  "scope s = [] \<Longrightarrow> run cs s w = (s', w') \<Longrightarrow> scope s' = [] \<and> no_metric_write w w'"
proof (induction cs arbitrary: s w)
  case Nil
  then show ?case by (simp add: no_metric_write_refl)
next
  case (Cons pc cs)
  obtain P c where pc: "pc = (P, c)" by (cases pc)
  obtain r s1 w1 where st: "step P c s w = (r, s1, w1)" by (cases "step P c s w")
  have s1: "scope s1 = []" using step_scope [OF st] Cons.prems(1) by simp
  have n1: "no_metric_write w w1" using Cons.prems(1) st by (rule step_nmw)
  from Cons.prems(2) pc st have "run cs s1 w1 = (s', w')" by simp
  from Cons.IH [OF s1 this] n1 show ?case by (auto intro: no_metric_write_trans)
qed

section \<open>A disabled server and an unconfigured one\<close>

lemma truthy_None: "\<not> truthy None"
  by (simp add: truthy_def)

lemma get_env_id_forget:
  "\<not> truthy (remote s) \<Longrightarrow> get_env_id P env (s\<lparr>remote := None\<rparr>) w = get_env_id P env s w"
  by (simp add: get_env_id_def truthy_None)

lemma prepare_forget:
  "prepare P (s\<lparr>remote := None\<rparr>) = (case prepare P s of (r, s') \<Rightarrow> (r, s'\<lparr>remote := None\<rparr>))"
  by (simp add: prepare_def split: memuse.split sum.split)

lemma set_environment_info_forget:
  "\<not> truthy (remote s) \<Longrightarrow>
   set_environment_info P env (s\<lparr>remote := None\<rparr>) w =
     (case set_environment_info P env s w of (r, s', w') \<Rightarrow> (r, s'\<lparr>remote := None\<rparr>, w'))"
  by (simp add: set_environment_info_def get_env_id_def register_local_def register_remote_def
      truthy_None Let_def split: option.split sum.split list.split)

lemma store_session_forget:
  "\<not> truthy (remote s) \<Longrightarrow>
   store_session P run_date scm d (s\<lparr>remote := None\<rparr>) w =
     (case store_session P run_date scm d s w of (r, s', w') \<Rightarrow> (r, s'\<lparr>remote := None\<rparr>, w'))"
  by (simp add: store_session_def truthy_None Let_def)

lemma compute_info_forget:
  assumes "\<not> truthy (remote s)"
  shows "compute_info P description tags (s\<lparr>remote := None\<rparr>) w =
     (case compute_info P description tags s w of (r, s', w') \<Rightarrow> (r, s'\<lparr>remote := None\<rparr>, w'))"
proof -
  define h where "h = md5_hexdigest P
      (md5_update (md5_update (md5_update md5_new (scm_revision P)) (now_iso P)) description)"
  define d1 where "d1 = (if description \<noteq> []
      then AList.update ''description'' description (ci_info P) else ci_info P)"
  define s1 where "s1 = s\<lparr>session_h := h\<rparr>"
  define rest where "rest = (\<lambda>d2 s2.
      case set_environment_info P (new_execution_context P) s2 w of
        (Inl e, s3, w3) \<Rightarrow> (Inl e, s3, w3)
      | (Inr u', s3, w3) \<Rightarrow> store_session P (now_iso P) (scm_revision P) d2 s3 w3)"
  have unfold: "compute_info P description tags x w =
      (case set_tags tags d1 of
         Inl e \<Rightarrow> (Inl e, x\<lparr>session_h := h\<rparr>, w)
       | Inr d2 \<Rightarrow>
           (case prepare P (x\<lparr>session_h := h\<rparr>) of
              (Inl e, s2) \<Rightarrow> (Inl e, s2, w)
            | (Inr u, s2) \<Rightarrow> rest d2 s2))" for x
    unfolding compute_info_def Let_def h_def d1_def rest_def by (rule refl)
  have s1': "s\<lparr>remote := None, session_h := h\<rparr> = s1\<lparr>remote := None\<rparr>"
    by (simp add: s1_def)
  obtain p s2 where p: "prepare P s1 = (p, s2)" by (cases "prepare P s1")
  have r2: "\<not> truthy (remote s2)" using prepare_frame [of P s1] p assms by (simp add: s1_def)
  have p': "prepare P (s1\<lparr>remote := None\<rparr>) = (p, s2\<lparr>remote := None\<rparr>)"
    using p by (simp add: prepare_forget)
  have rest': "rest d2 (s2\<lparr>remote := None\<rparr>) =
      (case rest d2 s2 of (r, s', w') \<Rightarrow> (r, s'\<lparr>remote := None\<rparr>, w'))" for d2
  proof -
    obtain q s3 w3 where q: "set_environment_info P (new_execution_context P) s2 w = (q, s3, w3)"
      by (cases "set_environment_info P (new_execution_context P) s2 w")
    have r3: "\<not> truthy (remote s3)" using q r2 by (rule set_environment_info_disabled)
    have q': "set_environment_info P (new_execution_context P) (s2\<lparr>remote := None\<rparr>) w =
        (q, s3\<lparr>remote := None\<rparr>, w3)"
      using q r2 by (simp add: set_environment_info_forget)
    show ?thesis
      using q q' r3 by (cases q) (simp_all add: rest_def store_session_forget)
  qed
  show ?thesis
  proof (cases "set_tags tags d1")
    case (Inl e)
    then show ?thesis by (simp add: unfold)
  next
    case (Inr d2)
    show ?thesis
      using Inr p p' rest' [of d2]
      by (cases p) (simp_all add: unfold s1' s1_def [symmetric])
  qed
qed

lemma dispatch_metric_forget:
  "\<not> truthy (remote s) \<Longrightarrow>
   dispatch_metric P item mem row rrow (s\<lparr>remote := None\<rparr>) w =
     (case dispatch_metric P item mem row rrow s w of (r, s', w') \<Rightarrow> (r, s'\<lparr>remote := None\<rparr>, w'))"
  by (simp add: dispatch_metric_def truthy_None Let_def db_env_id_def remote_env_id_def
      split: option.split)

lemma add_test_info_forget:
  "\<not> truthy (remote s) \<Longrightarrow>
   add_test_info P item item_path item_variant item_loc kind user_component
       item_start_time total_time user_time kernel_time mem_usage (s\<lparr>remote := None\<rparr>) w =
     (case add_test_info P item item_path item_variant item_loc kind user_component
       item_start_time total_time user_time kernel_time mem_usage s w of
        (r, s', w') \<Rightarrow> (r, s'\<lparr>remote := None\<rparr>, w'))"
  by (simp add: add_test_info_def dispatch_metric_forget Let_def split: option.split sum.split)

lemma add_system_memory_snapshot_forget:
  "\<not> truthy (remote s) \<Longrightarrow>
   add_system_memory_snapshot P item_path item (s\<lparr>remote := None\<rparr>) w =
     (case add_system_memory_snapshot P item_path item s w of
        (r, s', w') \<Rightarrow> (r, s'\<lparr>remote := None\<rparr>, w'))"
  by (simp add: add_system_memory_snapshot_def truthy_None)

lemma step_forget:
  "\<not> truthy (remote s) \<Longrightarrow>
   step P c (s\<lparr>remote := None\<rparr>) w =
     (case step P c s w of (r, s', w') \<Rightarrow> (r, s'\<lparr>remote := None\<rparr>, w'))"
proof (cases c)
  case (Compute_info d t)
  then show "\<not> truthy (remote s) \<Longrightarrow> ?thesis" by (simp add: compute_info_forget)
next
  case (Set_environment_info e)
  then show "\<not> truthy (remote s) \<Longrightarrow> ?thesis" by (simp add: set_environment_info_forget)
next
  case (Get_env_id e)
  then show "\<not> truthy (remote s) \<Longrightarrow> ?thesis"
    by (simp add: get_env_id_forget split: prod.split sum.split)
next
  case Prepare
  then show ?thesis by (simp add: prepare_forget split: prod.split)
next
  case Increment_test_order
  then show ?thesis by (simp add: increment_test_order_def)
next
  case (Add_test_info a1 a2 a3 a4 a5 a6 a7 a8 a9 a10 a11)
  then show "\<not> truthy (remote s) \<Longrightarrow> ?thesis" by (simp add: add_test_info_forget)
next
  case (Add_system_memory_snapshot a1 a2)
  then show "\<not> truthy (remote s) \<Longrightarrow> ?thesis" by (simp add: add_system_memory_snapshot_forget)
qed


lemma run_forget:
  "\<not> truthy (remote s) \<Longrightarrow>
   run cs (s\<lparr>remote := None\<rparr>) w =
     (case run cs s w of (s', w') \<Rightarrow> (s'\<lparr>remote := None\<rparr>, w'))"
proof (induction cs arbitrary: s w)
  case Nil
  then show ?case by simp
next
  case (Cons pc cs)
  obtain P c where pc: "pc = (P, c)" by (cases pc)
  obtain r s1 w1 where st: "step P c s w = (r, s1, w1)" by (cases "step P c s w")
  have d1: "\<not> truthy (remote s1)" using step_effect [OF st] Cons.prems by (simp add: effect_def)
  have "step P c (s\<lparr>remote := None\<rparr>) w = (r, s1\<lparr>remote := None\<rparr>, w1)"
    using step_forget [OF Cons.prems, of P c w] st by simp
  with pc st Cons.IH [OF d1, of w1] show ?case by simp
qed

section \<open>The environment in the local store\<close>

lemma query_env_h_eq:
  "query_env_h w h =
     (if \<exists>c\<in>set (contexts w). compute_hash c = h then Some [h] else None)"
proof (cases "filter (\<lambda>c. compute_hash c = h) (contexts w)")
  case Nil
  then have "\<not> (\<exists>c\<in>set (contexts w). compute_hash c = h)"
    by (simp add: filter_empty_conv)
  with Nil show ?thesis by (simp add: query_env_h_def)
next
  case (Cons c cs)
  then have "c \<in> set (filter (\<lambda>c. compute_hash c = h) (contexts w))" by simp
  then have "c \<in> set (contexts w)" "compute_hash c = h" by simp_all
  with Cons show ?thesis by (auto simp: query_env_h_def)
qed

lemma get_env_id_remote_contexts:
  "get_env_id_remote P env base w = (r, w') \<Longrightarrow> contexts w' = contexts w"
  by (auto simp: get_env_id_remote_def Let_def http_def log_stdout_def
      split: http_reply.splits if_splits sum.splits)

lemma get_env_id_local:
  assumes "get_env_id P env s w = (g, w1)"
  shows "contexts w1 = contexts w \<and>
     (\<forall>d rid. g = Inr (d, rid) \<longrightarrow>
        d = (if db s \<noteq> None then map_option hd (query_env_h w (compute_hash env)) else None))"
  using assms
  by (auto simp: get_env_id_def Let_def query_env_h_eq
      split: if_splits prod.splits sum.splits dest: get_env_id_remote_contexts)

lemma register_local_eq:
  "db s \<noteq> None \<Longrightarrow>
   register_local env s d w =
     (if d = None then (Inr (Some (compute_hash env)), w\<lparr>contexts := contexts w @ [env]\<rparr>)
      else (Inr d, w))"
  by (simp add: register_local_def Let_def insert_execution_context_def query_env_h_eq index_def)

lemma register_remote_contexts:
  "register_remote P env s rid w = (r, s', w') \<Longrightarrow> contexts w' = contexts w"
  by (auto simp: register_remote_def Let_def http_def log_stdout_def warn_def
      split: if_splits http_reply.splits sum.splits)

lemma set_environment_info_local:
  assumes "set_environment_info P env s w = (r, s1, w1)" and "db s \<noteq> None"
  shows "(query_env_h w (compute_hash env) \<noteq> None \<longrightarrow> contexts w1 = contexts w) \<and>
     (r = Inr () \<longrightarrow>
        db_env_id s1 = Some (compute_hash env) \<and>
        contexts w1 = (if query_env_h w (compute_hash env) = None
                       then contexts w @ [env] else contexts w))"
proof (cases "get_env_id P env s w")
  case (Pair g wa)
  note g = Pair
  note loc = get_env_id_local [OF g]
  show ?thesis
  proof (cases g)
    case (Inl e)
    with assms g loc show ?thesis by (auto simp: set_environment_info_def)
  next
    case (Inr ids)
    obtain d rid where ids: "ids = (d, rid)" by (cases ids)
    have d: "d = map_option hd (query_env_h w (compute_hash env))"
      using loc Inr ids assms(2) by simp
    define s' where "s' = s\<lparr>eid := (d, rid)\<rparr>"
    define w2 where "w2 = log_stdout (Log_env_ids d rid) wa"
    define w3 where "w3 = (if d = None then w2\<lparr>contexts := contexts w2 @ [env]\<rparr> else w2)"
    define d' where "d' = (if d = None then Some (compute_hash env) else d)"
    have c2: "contexts w2 = contexts w" using loc by (simp add: log_stdout_def w2_def)
    have db1: "db s' \<noteq> None" using assms(2) by (simp add: s'_def)
    have l: "register_local env s' d w2 = (Inr d', w3)"
      by (simp add: register_local_eq [OF db1] w3_def d'_def)
    have d'h: "d' = Some (compute_hash env)"
      using d by (auto simp: d'_def query_env_h_eq split: if_splits)
    have c3: "contexts w3 = (if query_env_h w (compute_hash env) = None
        then contexts w @ [env] else contexts w)"
      using d c2 by (auto simp: w3_def query_env_h_eq split: if_splits)
    obtain rr s2 w4 where rr: "register_remote P env s' rid w3 = (rr, s2, w4)"
      by (cases "register_remote P env s' rid w3")
    note c4 = register_remote_contexts [OF rr]
    have step: "set_environment_info P env s w =
        (case rr of Inl e \<Rightarrow> (Inl e, s2, w4)
         | Inr rid' \<Rightarrow> (Inr (), s2\<lparr>eid := (d', rid')\<rparr>,
             log_stdout (Log_final_env_ids d' rid') w4))"
      using g Inr ids l rr
      by (simp add: set_environment_info_def Let_def s'_def [symmetric] w2_def [symmetric]
          split: sum.split)
    show ?thesis
    proof (cases rr)
      case (Inl e)
      with step assms(1) c3 c4 show ?thesis by auto
    next
      case (Inr rid')
      with step assms(1) c3 c4 d'h show ?thesis
        by (auto simp: db_env_id_def log_stdout_def)
    qed
  qed
qed


lemma set_environment_info_total:
  "\<not> truthy (remote s) \<Longrightarrow> fst (set_environment_info P env s w) = Inr ()"
  by (simp add: set_environment_info_def get_env_id_def register_local_def register_remote_def
      insert_execution_context_def query_env_h_eq index_def Let_def
      split: option.split list.split)

section \<open>The metric that is dispatched\<close>

lemma add_test_info_in_scope:
  assumes "kind \<in> set (scope s)" and "mem_usage_base s = Some base" and "total_time \<noteq> 0"
    and "fromtimestamp_iso P item_start_time = Inr start"
    and "str_format P (component s) user_component = Inr c"
  shows "add_test_info P item item_path item_variant item_loc kind user_component
       item_start_time total_time user_time kernel_time mem_usage s w =
     dispatch_metric P item (mem_usage - base)
       (metric_values (session_h s) start item item_path (replace_dash item_variant) item_loc
          kind (strip_dot c) total_time user_time kernel_time
          ((user_time + kernel_time) / total_time) (mem_usage - base))
       (metric_values (session_h s) start item item_path (replace_dash item_variant) item_loc
          kind (strip_dot c) total_time user_time kernel_time
          ((user_time + kernel_time) / total_time) (mem_usage - base))
       s w"
  using assms by (simp add: add_test_info_def Let_def)

lemma dispatch_metric_local:
  "db s \<noteq> None \<Longrightarrow> db_env_id s = Some e \<Longrightarrow>
   metrics (snd (snd (dispatch_metric P item mem row rrow s w))) = metrics w @ [row e]"
  by (simp add: dispatch_metric_def Let_def insert_metric_def http_def log_stdout_def warn_def
      split: option.split http_reply.split)

lemma dispatch_metric_remote:
  "truthy (remote s) \<Longrightarrow> remote_env_id s = Some rid \<Longrightarrow>
   sent (snd (snd (dispatch_metric P item mem row rrow s w))) =
     sent w @ [POST (the (remote s) @ ''/metrics/'') (Metric_payload (rrow rid))]"
  by (simp add: dispatch_metric_def Let_def insert_metric_def http_def log_stdout_def warn_def
      split: option.split http_reply.split)

lemma prepare_sets_baseline:
  "memory_usage P = Mem_float b \<or> (\<exists>bs. memory_usage P = Mem_list (b # bs)) \<Longrightarrow>
   prepare P s = (Inr (), s\<lparr>mem_usage_base := Some b\<rparr>)"
  by (auto simp: prepare_def index_def)

section \<open>Evaluation of concrete runs\<close>

lemmas eval_defs =
  add_test_info_def dispatch_metric_def metric_values_def insert_metric_def http_def
  log_stdout_def warn_def fake_platform_def fake_server_def fake_loads_def demo_session_def
  empty_world_def truthy_def db_env_id_def remote_env_id_def strip_dot_def replace_dash_def
  text_or_empty_def not_created_def Let_def

lemmas eval_env_defs =
  set_environment_info_def get_env_id_def get_env_id_remote_def register_local_def
  register_remote_def query_env_h_def insert_execution_context_def opt_of_json_def index_def
  init_def db_env_id_def http_def log_stdout_def warn_def fake_platform_def fake_server_def
  fake_loads_def empty_world_def truthy_def text_or_empty_def Let_def

section \<open>The claims\<close>

text \<open>
  C3. A metric whose kind is not in the scope is dropped: \<^verbatim>\<open>add_test_info\<close> returns
  normally, the object is unchanged, and the world changes by the one printed line only
  (no row in the store, no request, no warning). Nothing is normalised: the equation holds
  also where the normalisation would raise (no baseline, \<open>total_time = 0\<close>).
\<close>

theorem scope_filter_drops:
  "kind \<notin> set (scope s) \<Longrightarrow>
   add_test_info P item item_path item_variant item_loc kind user_component
       item_start_time total_time user_time kernel_time mem_usage s w =
   (Inr (), s, w\<lparr>stdout := stdout w @ [Log_metric_skipped_scope kind (scope s) item]\<rparr>)"
  by (simp add: add_test_info_def log_stdout_def)

theorem scope_filter_drops_witness:
  "''function'' \<notin> set (scope (init None (Some ''http://m'') [] (Some [''environment'']) True)) \<and>
   add_test_info (fake_platform Transport_error) ''t'' ''p'' ''v'' ''l'' ''function'' ''c'' 0 0 1 1 5
      (init None (Some ''http://m'') [] (Some [''environment'']) True) empty_world =
   (Inr (), init None (Some ''http://m'') [] (Some [''environment'']) True,
     empty_world\<lparr>stdout := [Log_metric_skipped_scope ''function'' [''environment''] ''t'']\<rparr>)"
  using scope_filter_drops [of "''function''"
      "init None (Some ''http://m'') [] (Some [''environment'']) True"
      "fake_platform Transport_error" "''t''" "''p''" "''v''" "''l''" "''c''" 0 0 1 1 5 empty_world]
  by (simp add: init_def empty_world_def)

text \<open>
  C7. The session identity that \<^verbatim>\<open>compute_info\<close> stores is the MD5 hex digest of the
  revision, the run date and the description string, concatenated in this order. It is the
  same for every list of tags and every CI metadata, and it is stored also when the call
  raises later.
\<close>

theorem session_identity:
  "session_h (fst (snd (compute_info (P\<lparr>ci_info := ci\<rparr>) description tags s w))) =
     md5_hex P (scm_revision P @ now_iso P @ description)"
proof -
  let ?P = "P\<lparr>ci_info := ci\<rparr>"
  obtain r s' w' where c: "compute_info ?P description tags s w = (r, s', w')"
    by (cases "compute_info ?P description tags s w") auto
  let ?s1 = "s\<lparr>session_h := md5_hex P (scm_revision P @ now_iso P @ description)\<rparr>"
  have "session_h s' = session_h ?s1"
    using c prepare_frame [of ?P ?s1]
    by (auto simp: compute_info_def Let_def md5_new_def md5_update_def md5_hexdigest_def
        split: sum.splits prod.splits
        dest!: set_environment_info_frame store_session_frame)
  with c show ?thesis by simp
qed

theorem session_identity_witness:
  "session_h (fst (snd (compute_info
       ((fake_platform (Response 201 ''{h: r1}''))\<lparr>ci_info := [(''pipeline_branch'', ''main'')]\<rparr>)
       ''nightly'' [Single ''y=2'']
       (init (Some ''db.sqlite'') (Some ''http://m'') [] None True) empty_world))) =
     ''abc1232024-01-01T00:00:00nightly''"
  using session_identity [where P = "fake_platform (Response 201 ''{h: r1}'')"
      and ci = "[(''pipeline_branch'', ''main'')]" and description = "''nightly''"
      and tags = "[Single ''y=2'']"
      and s = "init (Some ''db.sqlite'') (Some ''http://m'') [] None True" and w = empty_world]
  by (simp add: fake_platform_def)

text \<open>
  C8. \<^verbatim>\<open>add_system_memory_snapshot\<close> returns normally whatever the server does (any
  status, or an exception of the transport); it leaves the three tables of the local store,
  the warnings and \<^verbatim>\<open>self.__remote\<close> as they are; with the server unset or disabled it
  changes nothing at all.
\<close>

theorem snapshot_never_disables:
  "fst (add_system_memory_snapshot P item_path item s w) = Inr () \<and>
   remote (fst (snd (add_system_memory_snapshot P item_path item s w))) = remote s \<and>
   contexts (snd (snd (add_system_memory_snapshot P item_path item s w))) = contexts w \<and>
   sessions (snd (snd (add_system_memory_snapshot P item_path item s w))) = sessions w \<and>
   metrics (snd (snd (add_system_memory_snapshot P item_path item s w))) = metrics w \<and>
   warnings (snd (snd (add_system_memory_snapshot P item_path item s w))) = warnings w \<and>
   (\<not> truthy (remote s) \<longrightarrow> add_system_memory_snapshot P item_path item s w = (Inr (), s, w))"
  by (simp add: add_system_memory_snapshot_def increment_test_order_def http_def log_stdout_def
      Let_def split: http_reply.split)

theorem snapshot_never_disables_witness:
  "fst (add_system_memory_snapshot (fake_platform Transport_error) ''p'' ''t''
          demo_session empty_world) = Inr () \<and>
   remote (fst (snd (add_system_memory_snapshot (fake_platform (Response 500 ''down'')) ''p'' ''t''
          demo_session empty_world))) = Some ''http://m'' \<and>
   \<not> truthy (remote (demo_session\<lparr>remote := None\<rparr>)) \<and>
   add_system_memory_snapshot (fake_platform Transport_error) ''p'' ''t''
       (demo_session\<lparr>remote := None\<rparr>) empty_world =
     (Inr (), demo_session\<lparr>remote := None\<rparr>, empty_world)"
  using snapshot_never_disables [of "fake_platform Transport_error" "''p''" "''t''"
      demo_session empty_world]
    snapshot_never_disables [of "fake_platform (Response 500 ''down'')" "''p''" "''t''"
      demo_session empty_world]
    snapshot_never_disables [of "fake_platform Transport_error" "''p''" "''t''"
      "demo_session\<lparr>remote := None\<rparr>" empty_world]
  by (simp add: demo_session_def truthy_def)

text \<open>
  C10. When one of the strings of the tags has no \<^verbatim>\<open>=\<close>, \<^verbatim>\<open>compute_info\<close> raises
  \<^verbatim>\<open>IndexError\<close>: the session identity is set, nothing else of the object has changed and
  the world is untouched (no row, no request). So a normal return needs \<^verbatim>\<open>=\<close> in every
  string; with it in every string the loop over the tags does not raise.
\<close>

theorem tag_without_equals_raises:
  "((\<exists>t\<in>set (all_tag_strings tags). CHR ''='' \<notin> set t) \<longrightarrow>
      compute_info P description tags s w =
        (Inl IndexError,
         s\<lparr>session_h := md5_hex P (scm_revision P @ now_iso P @ description)\<rparr>, w)) \<and>
   ((\<forall>t\<in>set (all_tag_strings tags). CHR ''='' \<in> set t) \<longrightarrow> (\<exists>d'. set_tags tags d = Inr d'))"
proof (intro conjI impI)
  assume "\<exists>t\<in>set (all_tag_strings tags). CHR ''='' \<notin> set t"
  then have "\<And>d. set_tags tags d = Inl IndexError" by (rule set_tags_no_eq)
  then show "compute_info P description tags s w =
      (Inl IndexError, s\<lparr>session_h := md5_hex P (scm_revision P @ now_iso P @ description)\<rparr>, w)"
    by (simp add: compute_info_def Let_def md5_new_def md5_update_def md5_hexdigest_def)
next
  assume "\<forall>t\<in>set (all_tag_strings tags). CHR ''='' \<in> set t"
  then show "\<exists>d'. set_tags tags d = Inr d'" by (rule set_tags_eq)
qed

theorem tag_without_equals_raises_witness:
  "(\<exists>t\<in>set (all_tag_strings [Single ''y=2'', Group [''a=b'', ''broken'']]). CHR ''='' \<notin> set t) \<and>
   compute_info (fake_platform (Response 201 ''{h: r1}'')) ''nightly''
       [Single ''y=2'', Group [''a=b'', ''broken'']]
       (init (Some ''db.sqlite'') (Some ''http://m'') [] None True) empty_world =
     (Inl IndexError,
      (init (Some ''db.sqlite'') (Some ''http://m'') [] None True)
        \<lparr>session_h := ''abc1232024-01-01T00:00:00nightly''\<rparr>, empty_world) \<and>
   set_tags [Single ''y=2'', Group [''a=b'', ''c=d'']] [] =
     Inr [(''y'', ''2''), (''a'', ''b''), (''c'', ''d'')]"
  using tag_without_equals_raises [of "[Single ''y=2'', Group [''a=b'', ''broken'']]"
      "fake_platform (Response 201 ''{h: r1}'')" "''nightly''"
      "init (Some ''db.sqlite'') (Some ''http://m'') [] None True" empty_world "[]"]
  by (simp add: all_tag_strings_def fake_platform_def set_tag_def split_eq1_def index_def)

text \<open>
  C9. With \<^verbatim>\<open>scope=None\<close> the scope of the new object is the empty list. Then
  \<^verbatim>\<open>add_test_info\<close> drops every metric, whatever its kind; and after any sequence of
  calls on the object, whatever the platform does, the table of metrics is as it was and
  no request for a metric has been sent.
\<close>

theorem default_scope_records_nothing:
  "scope (init db_path remote_url tpl None tracing) = [] \<and>
   add_test_info P item item_path item_variant item_loc kind user_component
       item_start_time total_time user_time kernel_time mem_usage
       (init db_path remote_url tpl None tracing) w =
     (Inr (), init db_path remote_url tpl None tracing,
      w\<lparr>stdout := stdout w @ [Log_metric_skipped_scope kind [] item]\<rparr>) \<and>
   metrics (snd (run cs (init db_path remote_url tpl None tracing) w)) = metrics w \<and>
   filter is_metric_post (sent (snd (run cs (init db_path remote_url tpl None tracing) w))) =
     filter is_metric_post (sent w)"
proof -
  let ?s = "init db_path remote_url tpl None tracing"
  have sc: "scope ?s = []" by (simp add: init_def)
  obtain s' w' where r: "run cs ?s w = (s', w')" by (cases "run cs ?s w")
  have "no_metric_write w w'" using run_empty_scope [OF sc r] by simp
  with r sc show ?thesis
    by (simp add: no_metric_write_def add_test_info_out_of_scope log_stdout_def)
qed

theorem default_scope_records_nothing_witness:
  "metrics (snd (run
      [(fake_platform (Response 201 ''{h: r1}''), Compute_info ''nightly'' [Single ''y=2'']),
       (fake_platform (Response 201 ''{h: r1}''),
        Add_test_info ''t'' ''p'' ''v'' ''l'' ''function'' ''c'' 0 1 (6/10) (1/10) 120)]
      (init (Some ''db.sqlite'') (Some ''http://m'') [] None True) empty_world)) = [] \<and>
   filter is_metric_post (sent (snd (run
      [(fake_platform (Response 201 ''{h: r1}''), Compute_info ''nightly'' [Single ''y=2'']),
       (fake_platform (Response 201 ''{h: r1}''),
        Add_test_info ''t'' ''p'' ''v'' ''l'' ''function'' ''c'' 0 1 (6/10) (1/10) 120)]
      (init (Some ''db.sqlite'') (Some ''http://m'') [] None True) empty_world))) = []"
  using default_scope_records_nothing [where db_path = "Some ''db.sqlite''"
      and remote_url = "Some ''http://m''" and tpl = "[]" and tracing = True and w = empty_world
      and cs = "[(fake_platform (Response 201 ''{h: r1}''), Compute_info ''nightly'' [Single ''y=2'']),
       (fake_platform (Response 201 ''{h: r1}''),
        Add_test_info ''t'' ''p'' ''v'' ''l'' ''function'' ''c'' 0 1 (6/10) (1/10) 120)]"]
  by (simp add: empty_world_def)

text \<open>
  C2. The flag of the remote server is the truth value of \<^verbatim>\<open>self.__remote\<close>. Where the
  write of a session or of a metric is rejected, the flag is cleared before the warning
  (lines 128 and 225); where the write of a context is rejected, the warning comes first
  (lines 147 and 148). So with warnings raised as errors a rejected context leaves
  \<^verbatim>\<open>set_environment_info\<close> through the warning with the flag still enabled, and the next
  call sends requests again; the rejected metric, under the same filter, leaves the flag
  disabled.
\<close>

theorem rejected_context_keeps_flag:
  "fst rejected_context = Inl UserWarning \<and>
   rejected strict_platform [] (sent (snd (snd rejected_context))) \<and>
   remote (fst (snd rejected_context)) = Some ''http://m'' \<and>
   length (sent (snd (snd rejected_context))) = 2 \<and>
   length (sent (snd (snd retried_context))) = 4 \<and>
   fst (add_test_info strict_platform ''t'' ''p'' ''v'' ''l'' ''function'' ''c''
       0 1 (6/10) (1/10) 120 demo_session empty_world) = Inl UserWarning \<and>
   remote (fst (snd (add_test_info strict_platform ''t'' ''p'' ''v'' ''l'' ''function'' ''c''
       0 1 (6/10) (1/10) 120 demo_session empty_world))) = Some []"
  by (simp add: retried_context_def rejected_context_def strict_platform_def demo_env_def
      eval_env_defs eval_defs)

text \<open>
  C6. With a local store configured, \<^verbatim>\<open>set_environment_info\<close> resolves the local key of
  an environment as follows.
  \<^item> When the store holds a row for the fingerprint, no row is inserted (also when the call
    raises on the remote side), and on a normal return the key is the fingerprint, the
    \<^verbatim>\<open>ENV_H\<close> of that row.
  \<^item> When it holds none, a normal return has inserted exactly the context, and the key is
    the one the query reads back from the store after the insert.
  \<^item> A second resolution of the same context, after a first that returned normally,
    inserts nothing and returns the same key.
  \<^item> Without a remote server (unset or disabled) the call always returns normally.
\<close>

theorem local_environment_resolution:
  assumes "db s \<noteq> None" and "set_environment_info P env s w = (r, s1, w1)"
  shows "(query_env_h w (compute_hash env) \<noteq> None \<longrightarrow> contexts w1 = contexts w) \<and>
     (r = Inr () \<longrightarrow>
        db_env_id s1 = Some (compute_hash env) \<and>
        query_env_h w1 (compute_hash env) = Some [compute_hash env] \<and>
        contexts w1 = (if query_env_h w (compute_hash env) = None
                       then contexts w @ [env] else contexts w)) \<and>
     (r = Inr () \<longrightarrow> set_environment_info P' env s1 w1 = (r2, s2, w2) \<longrightarrow>
        contexts w2 = contexts w1 \<and> (r2 = Inr () \<longrightarrow> db_env_id s2 = db_env_id s1)) \<and>
     (\<not> truthy (remote s) \<longrightarrow> r = Inr ())"
proof -
  note first = set_environment_info_local [OF assms(2) assms(1)]
  have a: "query_env_h w (compute_hash env) \<noteq> None \<longrightarrow> contexts w1 = contexts w"
    using first by simp
  have b: "r = Inr () \<longrightarrow>
        db_env_id s1 = Some (compute_hash env) \<and>
        query_env_h w1 (compute_hash env) = Some [compute_hash env] \<and>
        contexts w1 = (if query_env_h w (compute_hash env) = None
                       then contexts w @ [env] else contexts w)"
    using first by (auto simp: query_env_h_eq split: if_splits)
  have c: "contexts w2 = contexts w1 \<and> (r2 = Inr () \<longrightarrow> db_env_id s2 = db_env_id s1)"
    if r: "r = Inr ()" and second: "set_environment_info P' env s1 w1 = (r2, s2, w2)"
  proof -
    have db1: "db s1 \<noteq> None"
      using set_environment_info_frame [OF assms(2)] assms(1) by simp
    have found: "query_env_h w1 (compute_hash env) \<noteq> None" using b r by simp
    from set_environment_info_local [OF second db1] found b r show ?thesis by simp
  qed
  have d: "\<not> truthy (remote s) \<longrightarrow> r = Inr ()"
    using set_environment_info_total [of s P env w] assms(2) by simp
  from a b c d show ?thesis by blast
qed

theorem local_environment_resolution_witness:
  "db (init (Some ''db.sqlite'') (Some ''http://m'') [] None True) \<noteq> None \<and>
   query_env_h empty_world (compute_hash demo_env) = None \<and>
   fst resolve_once = Inr () \<and>
   db_env_id (fst (snd resolve_once)) = Some ''e1'' \<and>
   contexts (snd (snd resolve_once)) = [demo_env] \<and>
   fst resolve_twice = Inr () \<and>
   db_env_id (fst (snd resolve_twice)) = Some ''e1'' \<and>
   contexts (snd (snd resolve_twice)) = [demo_env]"
  using local_environment_resolution
    [where s = "init (Some ''db.sqlite'') (Some ''http://m'') [] None True"
      and P = "fake_platform (Response 201 ''{h: r1}'')" and env = demo_env and w = empty_world
      and r = "fst resolve_once" and ?s1.0 = "fst (snd resolve_once)"
      and ?w1.0 = "snd (snd resolve_once)"
      and P' = "fake_platform (Response 201 ''{h: r1}'')"
      and ?r2.0 = "fst resolve_twice" and ?s2.0 = "fst (snd resolve_twice)"
      and ?w2.0 = "snd (snd resolve_twice)"]
  by (simp add: resolve_twice_def resolve_once_def demo_env_def eval_env_defs)

text \<open>
  C5. For a metric in scope (with a baseline, a non-zero total time, and a start time and
  a component that the library calls accept), the memory usage that is recorded, in the
  row of the local store and in the payload sent to the server, is the raw reading minus
  the baseline of the object. The baseline is the one \<^verbatim>\<open>prepare\<close> stores: the number that
  \<^verbatim>\<open>memory_usage\<close> returns, or the first of its list.
\<close>

theorem memory_delta:
  assumes "kind \<in> set (scope s)" and "mem_usage_base s = Some base" and "total_time \<noteq> 0"
    and "fromtimestamp_iso P item_start_time = Inr start"
    and "str_format P (component s) user_component = Inr c"
  shows
    "(db s \<noteq> None \<longrightarrow> db_env_id s = Some e \<longrightarrow>
        (\<exists>row. metrics (snd (snd (add_test_info P item item_path item_variant item_loc kind
                    user_component item_start_time total_time user_time kernel_time mem_usage
                    s w))) = metrics w @ [row] \<and>
               m_mem_usage row = mem_usage - base)) \<and>
     (truthy (remote s) \<longrightarrow> remote_env_id s = Some rid \<longrightarrow>
        (\<exists>u row. sent (snd (snd (add_test_info P item item_path item_variant item_loc kind
                    user_component item_start_time total_time user_time kernel_time mem_usage
                    s w))) = sent w @ [POST u (Metric_payload row)] \<and>
               m_mem_usage row = mem_usage - base)) \<and>
     (memory_usage P0 = Mem_float base \<or> (\<exists>bs. memory_usage P0 = Mem_list (base # bs)) \<longrightarrow>
        prepare P0 s0 = (Inr (), s0\<lparr>mem_usage_base := Some base\<rparr>))"
  using add_test_info_in_scope [OF assms]
  by (auto simp: dispatch_metric_local dispatch_metric_remote metric_values_def
      prepare_sets_baseline)

theorem memory_delta_witness:
  "map m_mem_usage (metrics (snd (snd (add_test_info (fake_platform (Response 201 []))
       ''t'' ''p'' ''v'' ''l'' ''function'' ''c'' 0 1 (6/10) (1/10) 120
       demo_session empty_world)))) = [20] \<and>
   map m_mem_usage (metrics (snd (snd (add_test_info (fake_platform (Response 201 []))
       ''t'' ''p'' ''v'' ''l'' ''function'' ''c'' 0 1 (6/10) (1/10) 120
       (demo_session\<lparr>mem_usage_base := Some 0\<rparr>) empty_world)))) = [120] \<and>
   prepare (fake_platform (Response 201 [])) (init None None [] None True) =
     (Inr (), (init None None [] None True)\<lparr>mem_usage_base := Some 100\<rparr>)"
  using memory_delta [where kind = "''function''" and s = demo_session and base = 100
      and total_time = 1 and P = "fake_platform (Response 201 [])" and item_start_time = 0
      and start = "''1970-01-01T00:00:00''" and user_component = "''c''" and c = "''c''"
      and e = "''e1''" and rid = "JStr ''r1''" and item = "''t''" and item_path = "''p''"
      and item_variant = "''v''" and item_loc = "''l''" and user_time = "6/10"
      and kernel_time = "1/10" and mem_usage = 120 and w = empty_world
      and ?P0.0 = "fake_platform (Response 201 [])" and ?s0.0 = "init None None [] None True"]
    memory_delta [where kind = "''function''" and s = "demo_session\<lparr>mem_usage_base := Some 0\<rparr>"
      and base = 0
      and total_time = 1 and P = "fake_platform (Response 201 [])" and item_start_time = 0
      and start = "''1970-01-01T00:00:00''" and user_component = "''c''" and c = "''c''"
      and e = "''e1''" and rid = "JStr ''r1''" and item = "''t''" and item_path = "''p''"
      and item_variant = "''v''" and item_loc = "''l''" and user_time = "6/10"
      and kernel_time = "1/10" and mem_usage = 120 and w = empty_world]
  by (simp add: eval_defs prepare_def index_def)

text \<open>
  C4, as amended. For a metric in scope with \<open>total_time > 0\<close>, the CPU usage that is
  recorded in the row of the local store and in the payload sent to the server is
  \<open>(user_time + kernel_time) / total_time\<close>. With \<open>total_time = 0\<close> there is no guard: the
  division raises \<^verbatim>\<open>ZeroDivisionError\<close> to the caller, before any write.
\<close>

theorem cpu_usage_ratio:
  assumes "kind \<in> set (scope s)" and "mem_usage_base s = Some base"
    and "fromtimestamp_iso P item_start_time = Inr start"
    and "str_format P (component s) user_component = Inr c"
  shows
    "(0 < total_time \<longrightarrow>
       (db s \<noteq> None \<longrightarrow> db_env_id s = Some e \<longrightarrow>
          (\<exists>row. metrics (snd (snd (add_test_info P item item_path item_variant item_loc kind
                      user_component item_start_time total_time user_time kernel_time mem_usage
                      s w))) = metrics w @ [row] \<and>
                 m_cpu_usage row = (user_time + kernel_time) / total_time)) \<and>
       (truthy (remote s) \<longrightarrow> remote_env_id s = Some rid \<longrightarrow>
          (\<exists>u row. sent (snd (snd (add_test_info P item item_path item_variant item_loc kind
                      user_component item_start_time total_time user_time kernel_time mem_usage
                      s w))) = sent w @ [POST u (Metric_payload row)] \<and>
                 m_cpu_usage row = (user_time + kernel_time) / total_time))) \<and>
     (total_time = 0 \<longrightarrow>
        add_test_info P item item_path item_variant item_loc kind user_component
            item_start_time total_time user_time kernel_time mem_usage s w =
          (Inl ZeroDivisionError, s, w))"
proof (intro conjI impI)
  assume "total_time = 0"
  with assms show "add_test_info P item item_path item_variant item_loc kind user_component
            item_start_time total_time user_time kernel_time mem_usage s w =
          (Inl ZeroDivisionError, s, w)"
    by (simp add: add_test_info_def)
next
  assume t: "0 < total_time" and d: "db s \<noteq> None" "db_env_id s = Some e"
  then have "total_time \<noteq> 0" by simp
  from add_test_info_in_scope [OF assms(1,2) this assms(3,4)] d
  show "\<exists>row. metrics (snd (snd (add_test_info P item item_path item_variant item_loc kind
                      user_component item_start_time total_time user_time kernel_time mem_usage
                      s w))) = metrics w @ [row] \<and>
                 m_cpu_usage row = (user_time + kernel_time) / total_time"
    by (simp add: dispatch_metric_local metric_values_def)
next
  assume t: "0 < total_time" and d: "truthy (remote s)" "remote_env_id s = Some rid"
  then have "total_time \<noteq> 0" by simp
  from add_test_info_in_scope [OF assms(1,2) this assms(3,4)] d
  show "\<exists>u row. sent (snd (snd (add_test_info P item item_path item_variant item_loc kind
                      user_component item_start_time total_time user_time kernel_time mem_usage
                      s w))) = sent w @ [POST u (Metric_payload row)] \<and>
                 m_cpu_usage row = (user_time + kernel_time) / total_time"
    by (simp add: dispatch_metric_remote metric_values_def)
qed

theorem cpu_usage_ratio_witness:
  "map m_cpu_usage (metrics (snd (snd (add_test_info (fake_platform (Response 201 []))
       ''t'' ''p'' ''v'' ''l'' ''function'' ''c'' 0 1 (6/10) (1/10) 120
       demo_session empty_world)))) = [7/10] \<and>
   fst (add_test_info (fake_platform (Response 201 []))
       ''t'' ''p'' ''v'' ''l'' ''function'' ''c'' 0 0 (6/10) (1/10) 120
       demo_session empty_world) = Inl ZeroDivisionError"
  using cpu_usage_ratio [where kind = "''function''" and s = demo_session and base = 100
      and total_time = 1 and P = "fake_platform (Response 201 [])" and item_start_time = 0
      and start = "''1970-01-01T00:00:00''" and user_component = "''c''" and c = "''c''"
      and e = "''e1''" and rid = "JStr ''r1''" and item = "''t''" and item_path = "''p''"
      and item_variant = "''v''" and item_loc = "''l''" and user_time = "6/10"
      and kernel_time = "1/10" and mem_usage = 120 and w = empty_world]
    cpu_usage_ratio [where kind = "''function''" and s = demo_session and base = 100
      and total_time = 0 and P = "fake_platform (Response 201 [])" and item_start_time = 0
      and start = "''1970-01-01T00:00:00''" and user_component = "''c''" and c = "''c''"
      and item = "''t''" and item_path = "''p''"
      and item_variant = "''v''" and item_loc = "''l''" and user_time = "6/10"
      and kernel_time = "1/10" and mem_usage = 120 and w = empty_world]
  by (simp add: eval_defs)

text \<open>
  C4, as stated, fails at \<open>total_time = 0\<close>: the call divides by zero, and the exception
  leaves \<^verbatim>\<open>add_test_info\<close>.
\<close>

theorem zero_total_time_counterexample:
  "add_test_info (fake_platform (Response 201 [])) ''t'' ''p'' ''v'' ''l'' ''function'' ''c''
       0 0 (6/10) (1/10) 120 demo_session empty_world =
     (Inl ZeroDivisionError, demo_session, empty_world)"
  by (simp add: add_test_info_def demo_session_def)

text \<open>
  C1. When the request of \<^verbatim>\<open>add_test_info\<close> to the server raises (the server cannot be
  reached), the exception leaves \<^verbatim>\<open>add_test_info\<close>: the call does not return normally,
  the server stays enabled and no warning is raised.
\<close>

theorem transport_error_propagates:
  "fst (add_test_info (fake_platform Transport_error) ''t'' ''p'' ''v'' ''l'' ''function'' ''c''
       0 1 (6/10) (1/10) 120 demo_session empty_world) = Inl RequestException \<and>
   remote (fst (snd (add_test_info (fake_platform Transport_error) ''t'' ''p'' ''v'' ''l''
       ''function'' ''c'' 0 1 (6/10) (1/10) 120 demo_session empty_world))) = Some ''http://m'' \<and>
   warnings (snd (snd (add_test_info (fake_platform Transport_error) ''t'' ''p'' ''v'' ''l''
       ''function'' ''c'' 0 1 (6/10) (1/10) 120 demo_session empty_world))) = []"
  by (simp add: eval_defs)

end
